theory Spec2Isabelle
  imports Complex_Main "HOL-Library.Word"
begin

section \<open>A command-line To-Do list: the model\<close>

text \<open>
  The program is one JavaScript module, \<^verbatim>\<open>index.js\<close>: a helper \<^verbatim>\<open>readJSONFile\<close> and five
  commands (\<^verbatim>\<open>add\<close>, \<^verbatim>\<open>edit\<close>, \<^verbatim>\<open>delete\<close>, \<^verbatim>\<open>list\<close>, \<^verbatim>\<open>filter\<close>) that keep a list of tasks
  in \<^verbatim>\<open>db.json\<close> and a counter in \<^verbatim>\<open>counter.json\<close>. The model follows the module top to
  bottom. What the module takes from the platform is modelled here too, from the language
  standard: \<^verbatim>\<open>JSON.parse\<close>, \<^verbatim>\<open>JSON.stringify(value, null, 4)\<close>, \<^verbatim>\<open>parseInt\<close>, the array
  methods \<^verbatim>\<open>some\<close>, \<^verbatim>\<open>findIndex\<close>, \<^verbatim>\<open>splice\<close>, and the file and console calls.

  Scope of the model.
  \<^item> A JavaScript string is a list of 16-bit code units.
  \<^item> A JavaScript number is modelled by an exact number: an \<open>int\<close> in a task or a counter, a
    \<open>rat\<close> for a numeral of a JSON text. JavaScript computes in binary64, which agrees with
    exact arithmetic on integers of magnitude below \<open>2 ^ 53\<close>; beyond that range the model
    and the program differ, so the statements below describe the program for ids and counters
    within it.
  \<^item> The commands use the parsed documents at fixed shapes: \<^verbatim>\<open>db.json\<close> as an array of
    objects \<^verbatim>\<open>{id, title, status}\<close> with an integer and two strings, \<^verbatim>\<open>counter.json\<close> as an
    object \<^verbatim>\<open>{counter}\<close> with an integer. These are the shapes the program writes. A text
    that is valid JSON of another shape is outside the model: reading it yields the result
    \<open>Untyped\<close>, which stands for no behaviour of the program, and every statement below is
    about states whose documents have the two shapes (or are absent, empty or malformed).
  \<^item> \<^verbatim>\<open>writeFile\<close> is taken to succeed. A failing read is part of the model.
  \<^item> The option values come from the argument parser: \<^verbatim>\<open>--title\<close> and \<^verbatim>\<open>--id\<close> are strings
    (possibly empty), \<^verbatim>\<open>--status\<close> is a string (possibly empty) or absent. A \<^verbatim>\<open>--status\<close> flag
    with no value at all, which the argument parser turns into \<^verbatim>\<open>true\<close>, is outside the model.
\<close>

subsection \<open>JavaScript strings\<close>

type_synonym cu = "16 word"

type_synonym jstring = "cu list"

text \<open>An ASCII literal of the source, as code units.\<close>

definition ascii :: "string \<Rightarrow> jstring" where
  "ascii s = map (\<lambda>c. of_nat (of_char c)) s"

subsection \<open>JSON.parse\<close>

text \<open>
  A JSON text is tokenized and then parsed by recursive descent, following the JSON grammar:
  the four whitespace characters, the six structural characters, the three literal names,
  numbers \<^verbatim>\<open>-? int frac? exp?\<close> and strings with their escapes. \<open>None\<close> is the
  \<^verbatim>\<open>SyntaxError\<close> of \<^verbatim>\<open>JSON.parse\<close>. The members of an object are kept as the text has
  them, in its order.

  The code units that have a role: \<open>0x09\<close> tab, \<open>0x0A\<close> line feed, \<open>0x0D\<close> carriage
  return, \<open>0x20\<close> space, \<open>0x22\<close> quotation mark, \<open>0x2B\<close> plus, \<open>0x2C\<close> comma, \<open>0x2D\<close>
  minus, \<open>0x2E\<close> full stop, \<open>0x2F\<close> slash, \<open>0x30\<close> to \<open>0x39\<close> the digits, \<open>0x3A\<close> colon,
  \<open>0x45\<close> and \<open>0x65\<close> the letter e, \<open>0x5B\<close> and \<open>0x5D\<close> the brackets, \<open>0x5C\<close> backslash,
  \<open>0x7B\<close> and \<open>0x7D\<close> the braces; after a backslash \<open>0x62\<close> b, \<open>0x66\<close> f, \<open>0x6E\<close> n,
  \<open>0x72\<close> r, \<open>0x74\<close> t and \<open>0x75\<close> u; \<open>0x74\<close>, \<open>0x66\<close> and \<open>0x6E\<close> also start the
  literal names.
\<close>

datatype json =
    JNull
  | JBool bool
  | JNum rat
  | JStr jstring
  | JArr "json list"
  | JObj "(jstring \<times> json) list"

datatype token =
    TLBrace | TRBrace | TLBrack | TRBrack | TColon | TComma
  | TStr jstring | TNum rat | TTrue | TFalse | TNull

definition is_ws :: "cu \<Rightarrow> bool" where
  "is_ws c \<longleftrightarrow> c = 0x20 \<or> c = 0x09 \<or> c = 0x0A \<or> c = 0x0D"

definition is_digit :: "cu \<Rightarrow> bool" where
  "is_digit c \<longleftrightarrow> 0x30 \<le> c \<and> c \<le> 0x39"

definition hexval :: "cu \<Rightarrow> nat option" where
  "hexval c =
     (let n = unat c in
      if 48 \<le> n \<and> n \<le> 57 then Some (n - 48)
      else if 97 \<le> n \<and> n \<le> 102 then Some (n - 87)
      else if 65 \<le> n \<and> n \<le> 70 then Some (n - 55)
      else None)"

definition unescape :: "cu \<Rightarrow> cu option" where
  "unescape e =
     (if e = 0x22 then Some 0x22
      else if e = 0x5C then Some 0x5C
      else if e = 0x2F then Some 0x2F
      else if e = 0x62 then Some 0x08
      else if e = 0x66 then Some 0x0C
      else if e = 0x6E then Some 0x0A
      else if e = 0x72 then Some 0x0D
      else if e = 0x74 then Some 0x09
      else None)"

definition hex4val :: "cu \<Rightarrow> cu \<Rightarrow> cu \<Rightarrow> cu \<Rightarrow> cu option" where
  "hex4val a b c d =
     (case (hexval a, hexval b, hexval c, hexval d) of
        (Some x, Some y, Some z, Some w) \<Rightarrow> Some (of_nat (((x * 16 + y) * 16 + z) * 16 + w))
      | _ \<Rightarrow> None)"

definition consS :: "cu \<Rightarrow> (jstring \<times> jstring) option \<Rightarrow> (jstring \<times> jstring) option" where
  "consS c r = map_option (\<lambda>(s, rest). (c # s, rest)) r"

text \<open>The characters of a string after its opening quote, up to the closing quote.\<close>

fun lex_string :: "jstring \<Rightarrow> (jstring \<times> jstring) option" where
  "lex_string [] = None"
| "lex_string (c # cs) =
     (if c = 0x22 then Some ([], cs)
      else if c = 0x5C then
        (case cs of
           [] \<Rightarrow> None
         | e # r \<Rightarrow>
             if e = 0x75 then
               (case r of
                  h1 # h2 # h3 # h4 # r' \<Rightarrow>
                    (case hex4val h1 h2 h3 h4 of
                       None \<Rightarrow> None
                     | Some x \<Rightarrow> consS x (lex_string r'))
                | _ \<Rightarrow> None)
             else
               (case unescape e of
                  None \<Rightarrow> None
                | Some x \<Rightarrow> consS x (lex_string r)))
      else if c < 0x20 then None
      else consS c (lex_string cs))"

definition nat_of_digits :: "jstring \<Rightarrow> nat" where
  "nat_of_digits ds = foldl (\<lambda>a c. 10 * a + (unat c - 48)) 0 ds"

definition lex_frac :: "jstring \<Rightarrow> (jstring \<times> jstring) option" where
  "lex_frac cs =
     (case cs of
        [] \<Rightarrow> Some ([], cs)
      | c # r \<Rightarrow>
          if c = 0x2E then
            (let fs = takeWhile is_digit r in
             if fs = [] then None else Some (fs, dropWhile is_digit r))
          else Some ([], cs))"

definition take_sign :: "jstring \<Rightarrow> bool \<times> jstring" where
  "take_sign r =
     (case r of
        [] \<Rightarrow> (False, r)
      | s # r' \<Rightarrow>
          if s = 0x2D then (True, r')
          else if s = 0x2B then (False, r')
          else (False, r))"

definition lex_exp :: "jstring \<Rightarrow> (int \<times> jstring) option" where
  "lex_exp cs =
     (case cs of
        [] \<Rightarrow> Some (0, cs)
      | c # r \<Rightarrow>
          if c = 0x65 \<or> c = 0x45 then
            (let (neg, r1) = take_sign r; es = takeWhile is_digit r1 in
             if es = [] then None
             else Some ((if neg then - int (nat_of_digits es) else int (nat_of_digits es)),
                        dropWhile is_digit r1))
          else Some (0, cs))"

definition scale10 :: "rat \<Rightarrow> int \<Rightarrow> rat" where
  "scale10 x k = (if 0 \<le> k then x * 10 ^ nat k else x / 10 ^ nat (- k))"

definition number_value :: "bool \<Rightarrow> jstring \<Rightarrow> jstring \<Rightarrow> int \<Rightarrow> rat" where
  "number_value neg ds fs e =
     (let m = of_nat (nat_of_digits (ds @ fs)) in
      scale10 (if neg then - m else m) (e - int (length fs)))"

definition lex_minus :: "jstring \<Rightarrow> bool \<times> jstring" where
  "lex_minus cs =
     (case cs of
        [] \<Rightarrow> (False, cs)
      | c # r \<Rightarrow> if c = 0x2D then (True, r) else (False, cs))"

text \<open>
  A number. A second digit after a leading \<^verbatim>\<open>0\<close> is rejected at once: the grammar ends the
  number after the \<^verbatim>\<open>0\<close>, and no JSON text continues with a digit there.
\<close>

definition lex_number :: "jstring \<Rightarrow> (rat \<times> jstring) option" where
  "lex_number cs =
     (let (neg, cs1) = lex_minus cs;
          ds = takeWhile is_digit cs1;
          cs2 = dropWhile is_digit cs1
      in if ds = [] \<or> (hd ds = 0x30 \<and> 1 < length ds) then None
         else
           (case lex_frac cs2 of
              None \<Rightarrow> None
            | Some (fs, cs3) \<Rightarrow>
                (case lex_exp cs3 of
                   None \<Rightarrow> None
                 | Some (e, cs4) \<Rightarrow> Some (number_value neg ds fs e, cs4))))"

definition consT :: "token \<Rightarrow> token list option \<Rightarrow> token list option" where
  "consT t r = map_option ((#) t) r"

text \<open>Each sub-lexer consumes input, which is what makes the tokenizer terminate.\<close>

lemma consS_Some: "consS c r = Some (s, rest) \<longleftrightarrow> (\<exists>s'. r = Some (s', rest) \<and> s = c # s')"
  by (cases r) (auto simp: consS_def)

lemma lex_string_shorter: "lex_string cs = Some (s, rest) \<Longrightarrow> length rest < length cs"
proof (induction cs arbitrary: s rule: length_induct)
  case (1 cs)
  have IH: "\<And>ys s'. lex_string ys = Some (s', rest) \<Longrightarrow> length ys < length cs \<Longrightarrow> length rest < length ys"
    using "1.IH" by blast
  from "1.prems" show ?case
    by (cases cs) (auto simp: consS_Some split: if_splits list.splits option.splits dest: IH)
qed

lemma length_dropWhile_less: "takeWhile P xs \<noteq> [] \<Longrightarrow> length (dropWhile P xs) < length xs"
  by (cases xs) (auto simp: length_dropWhile_le le_imp_less_Suc split: if_splits)

lemma lex_frac_shorter: "lex_frac cs = Some (fs, rest) \<Longrightarrow> length rest \<le> length cs"
  by (auto simp: lex_frac_def Let_def length_dropWhile_le le_SucI split: list.splits if_splits)

lemma take_sign_shorter: "take_sign r = (neg, r1) \<Longrightarrow> length r1 \<le> length r"
  by (auto simp: take_sign_def split: list.splits if_splits)

lemma lex_exp_shorter: "lex_exp cs = Some (e, rest) \<Longrightarrow> length rest \<le> length cs"
proof -
  assume a: "lex_exp cs = Some (e, rest)"
  show ?thesis
  proof (cases cs)
    case Nil
    with a show ?thesis by (simp add: lex_exp_def)
  next
    case (Cons c r)
    obtain neg r1 where s: "take_sign r = (neg, r1)" by (cases "take_sign r")
    have "length (dropWhile is_digit r1) \<le> length r"
      using take_sign_shorter [OF s] length_dropWhile_le [of is_digit r1] by linarith
    with a Cons s show ?thesis
      by (auto simp: lex_exp_def Let_def split: if_splits)
  qed
qed

lemma lex_minus_shorter: "lex_minus cs = (neg, cs1) \<Longrightarrow> length cs1 \<le> length cs"
  by (auto simp: lex_minus_def split: list.splits if_splits)

lemma lex_number_shorter: "lex_number cs = Some (x, rest) \<Longrightarrow> length rest < length cs"
proof -
  assume a: "lex_number cs = Some (x, rest)"
  obtain neg cs1 where m: "lex_minus cs = (neg, cs1)" by (cases "lex_minus cs")
  from a m obtain fs cs3 e where
    ds: "takeWhile is_digit cs1 \<noteq> []" and
    f: "lex_frac (dropWhile is_digit cs1) = Some (fs, cs3)" and
    x: "lex_exp cs3 = Some (e, rest)"
    by (auto simp: lex_number_def Let_def split: if_splits option.splits)
  from length_dropWhile_less [OF ds] lex_frac_shorter [OF f] lex_exp_shorter [OF x]
    lex_minus_shorter [OF m]
  show ?thesis by linarith
qed

function tokenize :: "jstring \<Rightarrow> token list option" where
  "tokenize [] = Some []"
| "tokenize (c # cs) =
     (if is_ws c then tokenize cs
      else if c = 0x7B then consT TLBrace (tokenize cs)
      else if c = 0x7D then consT TRBrace (tokenize cs)
      else if c = 0x5B then consT TLBrack (tokenize cs)
      else if c = 0x5D then consT TRBrack (tokenize cs)
      else if c = 0x3A then consT TColon (tokenize cs)
      else if c = 0x2C then consT TComma (tokenize cs)
      else if c = 0x22 then
        (case lex_string cs of
           None \<Rightarrow> None
         | Some (s, rest) \<Rightarrow> consT (TStr s) (tokenize rest))
      else if c = 0x2D \<or> is_digit c then
        (case lex_number (c # cs) of
           None \<Rightarrow> None
         | Some (x, rest) \<Rightarrow> consT (TNum x) (tokenize rest))
      else if c = 0x74 then
        (if take 3 cs = ascii ''rue'' then consT TTrue (tokenize (drop 3 cs)) else None)
      else if c = 0x66 then
        (if take 4 cs = ascii ''alse'' then consT TFalse (tokenize (drop 4 cs)) else None)
      else if c = 0x6E then
        (if take 3 cs = ascii ''ull'' then consT TNull (tokenize (drop 3 cs)) else None)
      else None)"
  by pat_completeness auto
termination
  by (relation "measure length") (auto dest: lex_string_shorter lex_number_shorter)

text \<open>
  The parser returns the value read and the remaining tokens. The tests
  \<open>length rest < length ts\<close> make the recursion well-founded by construction; they always
  succeed (lemma \<open>parse_shorter\<close> below), so the \<open>else\<close> branches are never taken.
\<close>

function parse_value :: "token list \<Rightarrow> (json \<times> token list) option"
  and parse_elements :: "token list \<Rightarrow> (json list \<times> token list) option"
  and parse_members :: "token list \<Rightarrow> ((jstring \<times> json) list \<times> token list) option"
where
  "parse_value [] = None"
| "parse_value (t # ts) =
     (case t of
        TNull \<Rightarrow> Some (JNull, ts)
      | TTrue \<Rightarrow> Some (JBool True, ts)
      | TFalse \<Rightarrow> Some (JBool False, ts)
      | TNum x \<Rightarrow> Some (JNum x, ts)
      | TStr s \<Rightarrow> Some (JStr s, ts)
      | TLBrack \<Rightarrow>
          (case ts of
             TRBrack # rest \<Rightarrow> Some (JArr [], rest)
           | _ \<Rightarrow> map_option (\<lambda>(vs, rest). (JArr vs, rest)) (parse_elements ts))
      | TLBrace \<Rightarrow>
          (case ts of
             TRBrace # rest \<Rightarrow> Some (JObj [], rest)
           | _ \<Rightarrow> map_option (\<lambda>(ms, rest). (JObj ms, rest)) (parse_members ts))
      | _ \<Rightarrow> None)"
| "parse_elements ts =
     (case parse_value ts of
        None \<Rightarrow> None
      | Some (v, rest) \<Rightarrow>
          if length rest < length ts then
            (case rest of
               TComma # rest' \<Rightarrow> map_option (\<lambda>(vs, r). (v # vs, r)) (parse_elements rest')
             | TRBrack # rest' \<Rightarrow> Some ([v], rest')
             | _ \<Rightarrow> None)
          else None)"
| "parse_members ts =
     (case ts of
        TStr k # TColon # ts' \<Rightarrow>
          (case parse_value ts' of
             None \<Rightarrow> None
           | Some (v, rest) \<Rightarrow>
               if length rest < length ts' then
                 (case rest of
                    TComma # rest' \<Rightarrow> map_option (\<lambda>(ms, r). ((k, v) # ms, r)) (parse_members rest')
                  | TRBrace # rest' \<Rightarrow> Some ([(k, v)], rest')
                  | _ \<Rightarrow> None)
               else None)
      | _ \<Rightarrow> None)"
  by pat_completeness auto
termination
  apply (relation "measures [\<lambda>x. case x of Inl ts \<Rightarrow> length ts | Inr (Inl ts) \<Rightarrow> length ts | Inr (Inr ts) \<Rightarrow> length ts,
                            \<lambda>x. case x of Inl ts \<Rightarrow> 0 | Inr (Inl ts) \<Rightarrow> 1 | Inr (Inr ts) \<Rightarrow> 1]")
  apply auto
  done

definition JSON_parse :: "jstring \<Rightarrow> json option" where
  "JSON_parse text =
     (case tokenize text of
        None \<Rightarrow> None
      | Some ts \<Rightarrow>
          (case parse_value ts of
             Some (v, []) \<Rightarrow> Some v
           | _ \<Rightarrow> None))"

subsection \<open>JSON.stringify with an indentation of four spaces\<close>

text \<open>
  \<^verbatim>\<open>QuoteJSONString\<close>: the two-character escapes, \<^verbatim>\<open>\uXXXX\<close> in lower-case hexadecimal for
  the other control characters and for a surrogate that is not part of a pair, and every
  other code unit as it is.
\<close>

definition hexdigit :: "nat \<Rightarrow> cu" where
  "hexdigit n = of_nat (if n < 10 then 48 + n else 87 + n)"

definition hex4 :: "cu \<Rightarrow> jstring" where
  "hex4 c =
     (let n = unat c in
      [hexdigit (n div 4096), hexdigit (n div 256 mod 16),
       hexdigit (n div 16 mod 16), hexdigit (n mod 16)])"

definition is_high :: "cu \<Rightarrow> bool" where
  "is_high c \<longleftrightarrow> 0xD800 \<le> c \<and> c \<le> 0xDBFF"

definition is_low :: "cu \<Rightarrow> bool" where
  "is_low c \<longleftrightarrow> 0xDC00 \<le> c \<and> c \<le> 0xDFFF"

definition quote_unit :: "cu \<Rightarrow> jstring" where
  "quote_unit c =
     (if c = 0x08 then [0x5C, 0x62]
      else if c = 0x09 then [0x5C, 0x74]
      else if c = 0x0A then [0x5C, 0x6E]
      else if c = 0x0C then [0x5C, 0x66]
      else if c = 0x0D then [0x5C, 0x72]
      else if c = 0x22 then [0x5C, 0x22]
      else if c = 0x5C then [0x5C, 0x5C]
      else if c < 0x20 \<or> is_high c \<or> is_low c then [0x5C, 0x75] @ hex4 c
      else [c])"

fun quote_chars :: "jstring \<Rightarrow> jstring" where
  "quote_chars [] = []"
| "quote_chars [c] = quote_unit c"
| "quote_chars (c # d # cs) =
     (if is_high c \<and> is_low d then c # d # quote_chars cs
      else quote_unit c @ quote_chars (d # cs))"

definition quote :: "jstring \<Rightarrow> jstring" where
  "quote s = 0x22 # quote_chars s @ [0x22]"

text \<open>An integer prints in decimal, with a minus sign when negative.\<close>

definition digit :: "nat \<Rightarrow> cu" where
  "digit d = of_nat (48 + d)"

fun show_nat :: "nat \<Rightarrow> jstring" where
  "show_nat n = (if n < 10 then [digit n] else show_nat (n div 10) @ [digit (n mod 10)])"

definition show_int :: "int \<Rightarrow> jstring" where
  "show_int i = (if i < 0 then 0x2D # show_nat (nat (- i)) else show_nat (nat i))"

text \<open>
  \<^verbatim>\<open>SerializeJSONArray\<close> and \<^verbatim>\<open>SerializeJSONObject\<close> with the gap of four spaces: an empty
  array is \<^verbatim>\<open>[]\<close>; otherwise every item stands on a line of its own, indented one gap more
  than the enclosing value (\<open>stepback\<close>), and a member is \<^verbatim>\<open>"key": value\<close>.
\<close>

definition gap :: jstring where
  "gap = replicate 4 0x20"

fun join :: "jstring \<Rightarrow> jstring list \<Rightarrow> jstring" where
  "join sep [] = []"
| "join sep [x] = x"
| "join sep (x # y # ys) = x @ sep @ join sep (y # ys)"

definition ser_array :: "jstring \<Rightarrow> jstring list \<Rightarrow> jstring" where
  "ser_array stepback items =
     (if items = [] then [0x5B, 0x5D]
      else (let indent = stepback @ gap in
            [0x5B, 0x0A] @ indent @ join ([0x2C, 0x0A] @ indent) items @ [0x0A] @ stepback @ [0x5D]))"

definition ser_member :: "jstring \<times> jstring \<Rightarrow> jstring" where
  "ser_member m = quote (fst m) @ [0x3A, 0x20] @ snd m"

definition ser_object :: "jstring \<Rightarrow> (jstring \<times> jstring) list \<Rightarrow> jstring" where
  "ser_object stepback members =
     (if members = [] then [0x7B, 0x7D]
      else (let indent = stepback @ gap in
            [0x7B, 0x0A] @ indent @ join ([0x2C, 0x0A] @ indent) (map ser_member members)
              @ [0x0A] @ stepback @ [0x7D]))"

subsection \<open>The two documents\<close>

text \<open>
  A task is the object literal \<^verbatim>\<open>{ id: ctr.counter, title: options.title, status: options.status }\<close>
  of the \<^verbatim>\<open>add\<close> command; the counter is \<^verbatim>\<open>{ counter: 0 }\<close>. The field \<^verbatim>\<open>id\<close> is named
  \<open>id'\<close> here.
\<close>

record task =
  id' :: int
  title :: jstring
  status :: jstring

record ctr =
  counter :: int

text \<open>\<^verbatim>\<open>JSON.stringify(db, null, 4)\<close> and \<^verbatim>\<open>JSON.stringify(ctr, null, 4)\<close>.\<close>

definition stringify_task :: "jstring \<Rightarrow> task \<Rightarrow> jstring" where
  "stringify_task stepback t =
     ser_object stepback
       [(ascii ''id'', show_int (id' t)),
        (ascii ''title'', quote (title t)),
        (ascii ''status'', quote (status t))]"

definition stringify_tasks :: "task list \<Rightarrow> jstring" where
  "stringify_tasks db = ser_array [] (map (stringify_task gap) db)"

definition stringify_counter :: "ctr \<Rightarrow> jstring" where
  "stringify_counter c = ser_object [] [(ascii ''counter'', show_int (counter c))]"

text \<open>
  The shapes at which the commands use a parsed document. A number is an \<^verbatim>\<open>id\<close> or a counter
  when it is an integer (\<^verbatim>\<open>1.0\<close> and \<^verbatim>\<open>1e2\<close> are).
\<close>

definition as_int :: "rat \<Rightarrow> int option" where
  "as_int r = (if of_int \<lfloor>r\<rfloor> = r then Some \<lfloor>r\<rfloor> else None)"

definition as_task :: "json \<Rightarrow> task option" where
  "as_task j =
     (case j of
        JObj [(k1, JNum r), (k2, JStr t), (k3, JStr s)] \<Rightarrow>
          if k1 = ascii ''id'' \<and> k2 = ascii ''title'' \<and> k3 = ascii ''status''
          then map_option (\<lambda>i. \<lparr>id' = i, title = t, status = s\<rparr>) (as_int r)
          else None
      | _ \<Rightarrow> None)"

definition as_tasks :: "json \<Rightarrow> task list option" where
  "as_tasks j = (case j of JArr vs \<Rightarrow> those (map as_task vs) | _ \<Rightarrow> None)"

definition as_counter :: "json \<Rightarrow> ctr option" where
  "as_counter j =
     (case j of
        JObj [(k, JNum r)] \<Rightarrow>
          if k = ascii ''counter'' then map_option (\<lambda>i. \<lparr>counter = i\<rparr>) (as_int r) else None
      | _ \<Rightarrow> None)"

subsection \<open>Files and console\<close>

text \<open>
  The state a command runs in: what \<^verbatim>\<open>fsPromises.readFile(path, "utf-8")\<close> yields for each
  path (\<open>Inl code\<close> when it rejects with \<^verbatim>\<open>error.code\<close>, \<open>Inr data\<close> when it resolves), the
  calls of \<^verbatim>\<open>writeFile\<close> made so far, oldest first, and the lines printed so far.

  The errors that \<^verbatim>\<open>readJSONFile\<close> can end with: the \<^verbatim>\<open>SyntaxError\<close> of \<^verbatim>\<open>JSON.parse\<close>, a
  failure of \<^verbatim>\<open>readFile\<close> with a code other than \<^verbatim>\<open>ENOENT\<close>, and \<open>Untyped\<close> for a document
  outside the model.

  A message stands for one call of \<^verbatim>\<open>log\<close> or \<^verbatim>\<open>console.error\<close> of the source, the colours left
  out: \<open>AlreadyExistsMsg\<close> is "This task already exists in your To-Do list!", \<open>DbMsg db\<close> is
  \<^verbatim>\<open>log(db)\<close>, \<open>AddedMsg\<close> is "Task added successfully!", \<open>NotFoundMsg\<close> is "Task with the
  given ID not found!", \<open>UpdatedMsg\<close> is "Task updated successfully!" (printed by \<^verbatim>\<open>edit\<close> and
  by \<^verbatim>\<open>delete\<close>), \<open>CurrentDbMsg db\<close> is \<^verbatim>\<open>log("Current DB:", db)\<close>; \<open>AddErrorMsg\<close>,
  \<open>EditErrorMsg\<close> and \<open>DeleteErrorMsg\<close> are the lines "Error occurred while ... the task:"
  and \<open>ErrorMsg e\<close> is \<^verbatim>\<open>console.error(error)\<close>; \<open>ElementMsg\<close> is \<^verbatim>\<open>log(element)\<close> of \<^verbatim>\<open>list\<close>,
  \<open>FieldMsg key value\<close> and \<open>SeparatorMsg\<close> are the lines of \<^verbatim>\<open>filter\<close>.
\<close>

datatype error = SyntaxError | IOError string | Untyped

datatype message =
    AlreadyExistsMsg
  | DbMsg "task list"
  | AddedMsg
  | NotFoundMsg
  | UpdatedMsg
  | CurrentDbMsg "task list"
  | AddErrorMsg
  | EditErrorMsg
  | DeleteErrorMsg
  | ErrorMsg error
  | ElementMsg task
  | FieldMsg jstring jstring
  | SeparatorMsg

record world =
  files :: "string \<Rightarrow> string + jstring"
  writes :: "(string \<times> jstring) list"
  console :: "message list"

text \<open>
  \<^verbatim>\<open>writeFile\<close> stores a string as UTF-8 and \<^verbatim>\<open>readFile\<close> decodes it: a surrogate outside a
  pair comes back as U+FFFD, every other code unit as it was.
\<close>

fun toWellFormed :: "jstring \<Rightarrow> jstring" where
  "toWellFormed [] = []"
| "toWellFormed [c] = [if is_high c \<or> is_low c then 0xFFFD else c]"
| "toWellFormed (c # d # cs) =
     (if is_high c \<and> is_low d then c # d # toWellFormed cs
      else (if is_high c \<or> is_low c then 0xFFFD else c) # toWellFormed (d # cs))"

definition readFile :: "world \<Rightarrow> string \<Rightarrow> string + jstring" where
  "readFile w path = files w path"

definition writeFile :: "world \<Rightarrow> string \<Rightarrow> jstring \<Rightarrow> world" where
  "writeFile w path data =
     w\<lparr>files := (files w)(path := Inr (toWellFormed data)),
       writes := writes w @ [(path, data)]\<rparr>"

definition console_log :: "world \<Rightarrow> message \<Rightarrow> world" where
  "console_log w m = w\<lparr>console := console w @ [m]\<rparr>"

definition console_error :: "world \<Rightarrow> message \<Rightarrow> world" where
  "console_error w m = w\<lparr>console := console w @ [m]\<rparr>"

text \<open>The state before the first run: no file, nothing written, nothing printed.\<close>

definition empty_world :: world where
  "empty_world = \<lparr>files = (\<lambda>_. Inl ''ENOENT''), writes = [], console = []\<rparr>"

subsection \<open>readJSONFile\<close>

text \<open>
  \<^verbatim>\<open>
  async function readJSONFile(filePath, defaultValue = {}) {
    try {
      const data = await fsPromises.readFile(filePath, "utf-8");
      if (!data) return defaultValue;
      return JSON.parse(data);
    } catch (error) {
      if (error.code === "ENOENT") { return defaultValue; }
      throw error;
    }
  }
  \<close>
  The \<^verbatim>\<open>SyntaxError\<close> of \<^verbatim>\<open>JSON.parse\<close> is thrown inside the \<^verbatim>\<open>try\<close>; it has no \<^verbatim>\<open>code\<close>, so
  the handler throws it again. The parameter \<open>typed\<close> is the shape at which the caller uses
  the result.
\<close>

definition readJSONFile ::
  "(json \<Rightarrow> 'a option) \<Rightarrow> world \<Rightarrow> string \<Rightarrow> 'a \<Rightarrow> error + 'a" where
  "readJSONFile typed w filePath defaultValue =
     (case readFile w filePath of
        Inl code \<Rightarrow> if code = ''ENOENT'' then Inr defaultValue else Inl (IOError code)
      | Inr data \<Rightarrow>
          if data = [] then Inr defaultValue
          else
            (case JSON_parse data of
               None \<Rightarrow> Inl SyntaxError
             | Some j \<Rightarrow> (case typed j of None \<Rightarrow> Inl Untyped | Some v \<Rightarrow> Inr v)))"

subsection \<open>parseInt and the array methods\<close>

text \<open>
  \<^verbatim>\<open>parseInt(string)\<close> with no radix: leading white space and line terminators are skipped,
  then a sign, then \<^verbatim>\<open>0x\<close> or \<^verbatim>\<open>0X\<close> selects radix 16, else the radix is 10; the value is
  that of the longest prefix of digits, and \<open>None\<close> (\<^verbatim>\<open>NaN\<close>) when that prefix is empty.
\<close>

definition is_js_ws :: "cu \<Rightarrow> bool" where
  "is_js_ws c \<longleftrightarrow>
     c = 0x09 \<or> c = 0x0A \<or> c = 0x0B \<or> c = 0x0C \<or> c = 0x0D \<or> c = 0x20 \<or> c = 0xA0
     \<or> c = 0x1680 \<or> (0x2000 \<le> c \<and> c \<le> 0x200A) \<or> c = 0x2028 \<or> c = 0x2029
     \<or> c = 0x202F \<or> c = 0x205F \<or> c = 0x3000 \<or> c = 0xFEFF"

definition radix_digit :: "nat \<Rightarrow> cu \<Rightarrow> nat option" where
  "radix_digit R c =
     (case hexval c of None \<Rightarrow> None | Some v \<Rightarrow> if v < R then Some v else None)"

definition radix_value :: "nat \<Rightarrow> jstring \<Rightarrow> nat" where
  "radix_value R Z =
     foldl (\<lambda>a c. R * a + (case radix_digit R c of None \<Rightarrow> 0 | Some v \<Rightarrow> v)) 0 Z"

definition strip_prefix :: "jstring \<Rightarrow> nat \<times> jstring" where
  "strip_prefix S =
     (if take 2 S = [0x30, 0x78] \<or> take 2 S = [0x30, 0x58] then (16, drop 2 S) else (10, S))"

definition parseInt :: "jstring \<Rightarrow> int option" where
  "parseInt string =
     (let (neg, S1) = take_sign (dropWhile is_js_ws string);
          (R, S2) = strip_prefix S1;
          Z = takeWhile (\<lambda>c. radix_digit R c \<noteq> None) S2
      in if Z = [] then None
         else Some ((if neg then - 1 else 1) * int (radix_value R Z)))"

text \<open>
  \<^verbatim>\<open>findIndex\<close> returns the index of the first element that satisfies the predicate, or
  \<open>-1\<close>; \<open>splice1 i\<close> is \<^verbatim>\<open>splice(i, 1)\<close>.
\<close>

fun some :: "('a \<Rightarrow> bool) \<Rightarrow> 'a list \<Rightarrow> bool" where
  "some P [] = False"
| "some P (x # xs) = (P x \<or> some P xs)"

fun findIndex :: "('a \<Rightarrow> bool) \<Rightarrow> 'a list \<Rightarrow> int" where
  "findIndex P [] = - 1"
| "findIndex P (x # xs) =
     (if P x then 0 else (let r = findIndex P xs in if r = - 1 then - 1 else r + 1))"

definition splice1 :: "nat \<Rightarrow> 'a list \<Rightarrow> 'a list" where
  "splice1 i xs = take i xs @ drop (Suc i) xs"

subsection \<open>The commands\<close>

record add_options =
  add_title :: jstring
  add_status :: "jstring option"

record edit_options =
  edit_title :: "jstring option"
  edit_id :: jstring
  edit_status :: "jstring option"

record delete_options =
  delete_id :: jstring

record filter_options =
  filter_status :: "jstring option"

text \<open>
  \<^verbatim>\<open>
  const db = await readJSONFile("db.json", []);
  const taskExists = db.some((task) => task.title === options.title);
  if (taskExists) { log(chalk.yellow("This task already exists in your To-Do list!")); return; }
  const ctr = await readJSONFile("counter.json", { counter: 0 });
  ctr.counter++;
  if (!options.status) { options.status = "todo"; }
  db.push({ id: ctr.counter, title: options.title, status: options.status });
  log(db);
  await fsPromises.writeFile("counter.json", JSON.stringify(ctr, null, 4));
  await fsPromises.writeFile("db.json", JSON.stringify(db, null, 4));
  log(chalk.green("Task added successfully!"));
  \<close>
  all of it inside \<^verbatim>\<open>try { ... } catch (error) { console.error(...); console.error(error); }\<close>.
  \<^verbatim>\<open>!options.status\<close> holds for an absent status and for the empty string.
\<close>

definition add_action :: "world \<Rightarrow> add_options \<Rightarrow> world" where
  "add_action w options =
     (case readJSONFile as_tasks w ''db.json'' [] of
        Inl e \<Rightarrow> console_error (console_error w AddErrorMsg) (ErrorMsg e)
      | Inr db \<Rightarrow>
          if some (\<lambda>task. title task = add_title options) db then console_log w AlreadyExistsMsg
          else
            (case readJSONFile as_counter w ''counter.json'' \<lparr>counter = 0\<rparr> of
               Inl e \<Rightarrow> console_error (console_error w AddErrorMsg) (ErrorMsg e)
             | Inr ctr \<Rightarrow>
                 (let ctr = ctr\<lparr>counter := counter ctr + 1\<rparr>;
                      st = (case add_status options of
                              None \<Rightarrow> ascii ''todo''
                            | Some s \<Rightarrow> if s = [] then ascii ''todo'' else s);
                      db = db @ [\<lparr>id' = counter ctr, title = add_title options, status = st\<rparr>];
                      w = console_log w (DbMsg db);
                      w = writeFile w ''counter.json'' (stringify_counter ctr);
                      w = writeFile w ''db.json'' (stringify_tasks db)
                  in console_log w AddedMsg)))"

text \<open>
  \<^verbatim>\<open>
  if (options.title) db[taskIndex].title = options.title;
  if (options.status) db[taskIndex].status = options.status;
  \<close>
\<close>

definition edit_task :: "edit_options \<Rightarrow> task \<Rightarrow> task" where
  "edit_task options t =
     (let t = (case edit_title options of
                 None \<Rightarrow> t
               | Some s \<Rightarrow> if s = [] then t else t\<lparr>title := s\<rparr>)
      in (case edit_status options of
            None \<Rightarrow> t
          | Some s \<Rightarrow> if s = [] then t else t\<lparr>status := s\<rparr>))"

text \<open>
  \<^verbatim>\<open>
  const db = await readJSONFile("db.json", []);
  const taskIndex = db.findIndex((task) => task.id === parseInt(options.id));
  if (taskIndex === -1) { log(chalk.red("Task with the given ID not found!")); return; }
  ... the two assignments above ...
  await fsPromises.writeFile("db.json", JSON.stringify(db, null, 4));
  log(chalk.green("Task updated successfully!"));
  log("Current DB:", db);
  \<close>
  A comparison \<^verbatim>\<open>task.id === NaN\<close> is false for every task.
\<close>

definition edit_action :: "world \<Rightarrow> edit_options \<Rightarrow> world" where
  "edit_action w options =
     (case readJSONFile as_tasks w ''db.json'' [] of
        Inl e \<Rightarrow> console_error (console_error w EditErrorMsg) (ErrorMsg e)
      | Inr db \<Rightarrow>
          (let taskIndex = findIndex (\<lambda>task. Some (id' task) = parseInt (edit_id options)) db
           in if taskIndex = - 1 then console_log w NotFoundMsg
              else
                (let db = db[nat taskIndex := edit_task options (db ! nat taskIndex)];
                     w = writeFile w ''db.json'' (stringify_tasks db);
                     w = console_log w UpdatedMsg
                 in console_log w (CurrentDbMsg db))))"

text \<open>
  \<^verbatim>\<open>
  const db = await readJSONFile("db.json", []);
  const taskIndex = db.findIndex((task) => task.id === parseInt(options.id));
  if (taskIndex === -1) { log(chalk.red("Task with the given ID not found!")); return; }
  db.splice(taskIndex, 1);
  const ctr = await readJSONFile("counter.json", { counter: 0 });
  ctr.counter--;
  await fsPromises.writeFile("db.json", JSON.stringify(db, null, 4));
  await fsPromises.writeFile("counter.json", JSON.stringify(ctr, null, 4));
  log(chalk.green("Task updated successfully!"));
  log("Current DB:", db);
  \<close>
\<close>

definition delete_action :: "world \<Rightarrow> delete_options \<Rightarrow> world" where
  "delete_action w options =
     (case readJSONFile as_tasks w ''db.json'' [] of
        Inl e \<Rightarrow> console_error (console_error w DeleteErrorMsg) (ErrorMsg e)
      | Inr db \<Rightarrow>
          (let taskIndex = findIndex (\<lambda>task. Some (id' task) = parseInt (delete_id options)) db
           in if taskIndex = - 1 then console_log w NotFoundMsg
              else
                (let db = splice1 (nat taskIndex) db
                 in (case readJSONFile as_counter w ''counter.json'' \<lparr>counter = 0\<rparr> of
                       Inl e \<Rightarrow> console_error (console_error w DeleteErrorMsg) (ErrorMsg e)
                     | Inr ctr \<Rightarrow>
                         (let ctr = ctr\<lparr>counter := counter ctr - 1\<rparr>;
                              w = writeFile w ''db.json'' (stringify_tasks db);
                              w = writeFile w ''counter.json'' (stringify_counter ctr);
                              w = console_log w UpdatedMsg
                          in console_log w (CurrentDbMsg db))))))"

text \<open>
  \<^verbatim>\<open>list\<close> and \<^verbatim>\<open>filter\<close> have no \<^verbatim>\<open>try\<close>: an error of \<^verbatim>\<open>readJSONFile\<close> leaves the command
  (\<open>Inl\<close>).
  \<^verbatim>\<open>
  const db = await readJSONFile("db.json", []);
  db.forEach((element) => { log(element); });
  \<close>
\<close>

definition list_action :: "world \<Rightarrow> error + world" where
  "list_action w =
     (case readJSONFile as_tasks w ''db.json'' [] of
        Inl e \<Rightarrow> Inl e
      | Inr db \<Rightarrow> Inr (foldl (\<lambda>w element. console_log w (ElementMsg element)) w db))"

text \<open>
  \<^verbatim>\<open>
  const db = await readJSONFile("db.json", []);
  db.filter((element) => {
    if (element.status === options.status) {
      for (let key in element) { log(`${chalk.redBright(key)}: ${chalk.blue(element[key])}`); }
      log(chalk.yellowBright("=============================================="));
    }
  });
  \<close>
\<close>

definition show_element :: "world \<Rightarrow> task \<Rightarrow> world" where
  "show_element w element =
     (let w = console_log w (FieldMsg (ascii ''id'') (show_int (id' element)));
          w = console_log w (FieldMsg (ascii ''title'') (title element));
          w = console_log w (FieldMsg (ascii ''status'') (status element))
      in console_log w SeparatorMsg)"

definition filter_action :: "world \<Rightarrow> filter_options \<Rightarrow> error + world" where
  "filter_action w options =
     (case readJSONFile as_tasks w ''db.json'' [] of
        Inl e \<Rightarrow> Inl e
      | Inr db \<Rightarrow>
          Inr (foldl (\<lambda>w element.
                 if Some (status element) = filter_status options then show_element w element
                 else w) w db))"

subsection \<open>The store operations\<close>

text \<open>
  The four operations on the two documents, by the names of the specification. In the source
  they are the calls \<^verbatim>\<open>readJSONFile("db.json", [])\<close>, \<^verbatim>\<open>readJSONFile("counter.json", { counter: 0 })\<close>
  and the two calls of \<^verbatim>\<open>writeFile\<close> with \<^verbatim>\<open>JSON.stringify\<close>.
\<close>

definition loadTasks :: "world \<Rightarrow> error + task list" where
  "loadTasks w = readJSONFile as_tasks w ''db.json'' []"

definition loadCounter :: "world \<Rightarrow> error + ctr" where
  "loadCounter w = readJSONFile as_counter w ''counter.json'' \<lparr>counter = 0\<rparr>"

definition saveTasks :: "world \<Rightarrow> task list \<Rightarrow> world" where
  "saveTasks w db = writeFile w ''db.json'' (stringify_tasks db)"

definition saveCounter :: "world \<Rightarrow> ctr \<Rightarrow> world" where
  "saveCounter w c = writeFile w ''counter.json'' (stringify_counter c)"

subsection \<open>Notions used in the proofs\<close>

text \<open>The end of a number in a text, the tokens and the JSON value of a serialized document.\<close>

definition number_end :: "jstring \<Rightarrow> bool" where
  "number_end rest \<longleftrightarrow>
     (case rest of [] \<Rightarrow> True | c # _ \<Rightarrow> \<not> is_digit c \<and> c \<noteq> 0x2E \<and> c \<noteq> 0x65 \<and> c \<noteq> 0x45)"

definition prependT :: "token list \<Rightarrow> token list option \<Rightarrow> token list option" where
  "prependT ts r = map_option ((@) ts) r"

definition toks_task :: "task \<Rightarrow> token list" where
  "toks_task t =
     [TLBrace, TStr (ascii ''id''), TColon, TNum (of_int (id' t)), TComma,
      TStr (ascii ''title''), TColon, TStr (title t), TComma,
      TStr (ascii ''status''), TColon, TStr (status t), TRBrace]"

definition toks_more :: "task list \<Rightarrow> token list" where
  "toks_more ts = concat (map (\<lambda>t. TComma # toks_task t) ts)"

definition toks_tasks :: "task list \<Rightarrow> token list" where
  "toks_tasks db =
     (case db of
        [] \<Rightarrow> [TLBrack, TRBrack]
      | t # ts \<Rightarrow> TLBrack # toks_task t @ toks_more ts @ [TRBrack])"

definition json_of_task :: "task \<Rightarrow> json" where
  "json_of_task t =
     JObj [(ascii ''id'', JNum (of_int (id' t))),
           (ascii ''title'', JStr (title t)),
           (ascii ''status'', JStr (status t))]"

definition json_of_counter :: "ctr \<Rightarrow> json" where
  "json_of_counter c = JObj [(ascii ''counter'', JNum (of_int (counter c)))]"

text \<open>A text that the UTF-8 encoding leaves as it is, whatever follows it.\<close>

definition plain :: "cu \<Rightarrow> bool" where
  "plain c \<longleftrightarrow> \<not> is_high c \<and> \<not> is_low c"

definition preserved :: "jstring \<Rightarrow> bool" where
  "preserved s \<longleftrightarrow> (\<forall>r. toWellFormed (s @ r) = s @ toWellFormed r)"

text \<open>The task that \<^verbatim>\<open>add\<close> appends, and the lines that \<^verbatim>\<open>filter\<close> prints for one task.\<close>

definition new_task :: "ctr \<Rightarrow> add_options \<Rightarrow> task" where
  "new_task c options =
     \<lparr>id' = counter c + 1, title = add_title options,
      status = (case add_status options of
                  None \<Rightarrow> ascii ''todo''
                | Some s \<Rightarrow> if s = [] then ascii ''todo'' else s)\<rparr>"

definition element_lines :: "task \<Rightarrow> message list" where
  "element_lines element =
     [FieldMsg (ascii ''id'') (show_int (id' element)),
      FieldMsg (ascii ''title'') (title element),
      FieldMsg (ascii ''status'') (status element),
      SeparatorMsg]"

subsection \<open>States used as examples\<close>

definition task_a :: task where
  "task_a = \<lparr>id' = 1, title = ascii ''A'', status = ascii ''todo''\<rparr>"

definition task_b :: task where
  "task_b = \<lparr>id' = 2, title = ascii ''B'', status = ascii ''done''\<rparr>"

definition example_world :: world where
  "example_world = saveCounter (saveTasks empty_world [task_a, task_b]) \<lparr>counter = 2\<rparr>"

definition blank_db_world :: world where
  "blank_db_world = empty_world\<lparr>files := (files empty_world)(''db.json'' := Inr [])\<rparr>"

definition broken_db_world :: world where
  "broken_db_world = writeFile empty_world ''db.json'' [0x7B]"

definition broken_counter_world :: world where
  "broken_counter_world = writeFile (saveTasks empty_world [task_a, task_b]) ''counter.json'' [0x7B]"

text \<open>
  The run of the specification's scenario: on the empty store, \<^verbatim>\<open>add --title A\<close>, the same
  again, \<^verbatim>\<open>edit --id 1 --status doing\<close> and \<^verbatim>\<open>delete --id 1\<close>.
\<close>

definition after_add :: world where
  "after_add = add_action empty_world \<lparr>add_title = ascii ''A'', add_status = None\<rparr>"

definition after_second_add :: world where
  "after_second_add = add_action after_add \<lparr>add_title = ascii ''A'', add_status = None\<rparr>"

definition after_edit :: world where
  "after_edit =
     edit_action after_second_add
       \<lparr>edit_title = None, edit_id = ascii ''1'', edit_status = Some (ascii ''doing'')\<rparr>"

definition after_delete :: world where
  "after_delete = delete_action after_edit \<lparr>delete_id = ascii ''1''\<rparr>"

declare show_nat.simps [simp del]

declare parse_elements.simps [simp del] parse_members.simps [simp del]

section \<open>Properties of the model\<close>

subsection \<open>The parser always consumes input\<close>

lemma parse_value_cases:
  assumes "parse_value ts = Some (v, rest)"
  shows "(\<exists>t. ts = t # rest)
       \<or> (\<exists>ts'. ts = TLBrack # ts' \<and> (ts' = TRBrack # rest \<or> (\<exists>vs. parse_elements ts' = Some (vs, rest))))
       \<or> (\<exists>ts'. ts = TLBrace # ts' \<and> (ts' = TRBrace # rest \<or> (\<exists>ms. parse_members ts' = Some (ms, rest))))"
proof (cases ts)
  case Nil
  with assms show ?thesis by simp
next
  case (Cons t ts')
  show ?thesis
  proof (cases t)
    case TLBrack
    with assms Cons show ?thesis by (auto split: list.splits token.splits)
  next
    case TLBrace
    with assms Cons show ?thesis by (auto split: list.splits token.splits)
  qed (use assms Cons in auto)
qed

lemma parse_elements_cases:
  assumes "parse_elements ts = Some (vs, rest)"
  shows "\<exists>v r. parse_value ts = Some (v, r) \<and> length r < length ts
           \<and> (r = TRBrack # rest \<or> (\<exists>r' vs'. r = TComma # r' \<and> parse_elements r' = Some (vs', rest)))"
  using assms
  by (subst (asm) parse_elements.simps)
     (auto split: option.splits if_splits list.splits token.splits)

lemma parse_members_cases:
  assumes "parse_members ts = Some (ms, rest)"
  shows "\<exists>k ts' v r. ts = TStr k # TColon # ts' \<and> parse_value ts' = Some (v, r) \<and> length r < length ts'
           \<and> (r = TRBrace # rest \<or> (\<exists>r' ms'. r = TComma # r' \<and> parse_members r' = Some (ms', rest)))"
  using assms
  by (subst (asm) parse_members.simps)
     (auto split: option.splits if_splits list.splits token.splits)

lemma parse_shorter:
  "(parse_value ts = Some (v, rest) \<longrightarrow> length rest < length ts)
   \<and> (parse_elements ts = Some (vs, rest) \<longrightarrow> length rest < length ts)
   \<and> (parse_members ts = Some (ms, rest) \<longrightarrow> length rest < length ts)"
proof (induction ts arbitrary: v vs ms rest rule: length_induct)
  case (1 ts)
  have IHe: "length rest < length us"
    if "length us < length ts" "parse_elements us = Some (vs, rest)" for us vs rest
    using "1.IH" that by blast
  have IHm: "length rest < length us"
    if "length us < length ts" "parse_members us = Some (ms, rest)" for us ms rest
    using "1.IH" that by blast
  have V: "length rest < length ts" if "parse_value ts = Some (v, rest)" for v rest
    using parse_value_cases [OF that]
    by (auto dest!: IHe [rotated] IHm [rotated])
  have E: "length rest < length ts" if "parse_elements ts = Some (vs, rest)" for vs rest
    using parse_elements_cases [OF that]
    by (auto dest!: IHe [rotated])
  have M: "length rest < length ts" if "parse_members ts = Some (ms, rest)" for ms rest
  proof -
    from parse_members_cases [OF that] obtain k ts' v r where
      d: "ts = TStr k # TColon # ts'" "parse_value ts' = Some (v, r)" "length r < length ts'"
         "r = TRBrace # rest \<or> (\<exists>r' ms'. r = TComma # r' \<and> parse_members r' = Some (ms', rest))"
      by blast
    from d(4) show ?thesis
    proof
      assume "r = TRBrace # rest"
      with d show ?thesis by simp
    next
      assume "\<exists>r' ms'. r = TComma # r' \<and> parse_members r' = Some (ms', rest)"
      then obtain r' ms' where r: "r = TComma # r'" "parse_members r' = Some (ms', rest)" by blast
      with d have "length r' < length ts" by simp
      from IHm [OF this r(2)] r d show ?thesis by simp
    qed
  qed
  from V E M show ?case by blast
qed

subsection \<open>A quoted string reads back\<close>

lemma unat_cu: "n < 65536 \<Longrightarrow> unat (of_nat n :: cu) = n"
  by (simp add: unat_of_nat)

lemma hexval_hexdigit: "n < 16 \<Longrightarrow> hexval (hexdigit n) = Some n"
  by (auto simp: hexval_def hexdigit_def unat_cu Let_def)

lemma hex4_arith:
  fixes n :: nat
  shows "((n div 4096 * 16 + n div 256 mod 16) * 16 + n div 16 mod 16) * 16 + n mod 16 = n"
proof -
  have a: "n div 4096 = n div 256 div 16" by (simp add: div_mult2_eq)
  have b: "n div 256 = n div 16 div 16" by (simp add: div_mult2_eq)
  have "n div 4096 * 16 + n div 256 mod 16 = n div 256" unfolding a by simp
  moreover have "n div 256 * 16 + n div 16 mod 16 = n div 16" unfolding b by simp
  ultimately show ?thesis by simp
qed

lemma hex4val_hex4:
  "hex4 c = [h1, h2, h3, h4] \<Longrightarrow> hex4val h1 h2 h3 h4 = Some c"
proof -
  assume h: "hex4 c = [h1, h2, h3, h4]"
  define n where "n = unat c"
  have lt: "n < 65536" using unsigned_less [of c, where ?'a = nat] by (simp add: n_def)
  then have d: "n div 4096 < 16" by simp
  from h have hs: "h1 = hexdigit (n div 4096)" "h2 = hexdigit (n div 256 mod 16)"
      "h3 = hexdigit (n div 16 mod 16)" "h4 = hexdigit (n mod 16)"
    by (simp_all add: hex4_def Let_def n_def)
  have "hex4val h1 h2 h3 h4 =
          Some (of_nat (((n div 4096 * 16 + n div 256 mod 16) * 16 + n div 16 mod 16) * 16 + n mod 16))"
    unfolding hex4val_def hs by (simp add: hexval_hexdigit d del: of_nat_add of_nat_mult)
  also have "\<dots> = Some (of_nat n)" by (simp only: hex4_arith)
  also have "\<dots> = Some c" by (simp add: n_def)
  finally show ?thesis .
qed

lemma lex_string_quote_unit:
  "lex_string (quote_unit c @ tail) = consS c (lex_string tail)"
proof -
  obtain h1 h2 h3 h4 where h: "hex4 c = [h1, h2, h3, h4]"
    by (simp add: hex4_def Let_def)
  show ?thesis
    by (simp add: quote_unit_def h hex4val_hex4 [OF h] unescape_def)
qed

lemma is_high_plain: "is_high c \<Longrightarrow> c \<noteq> 0x22 \<and> c \<noteq> 0x5C \<and> \<not> c < 0x20"
  by (auto simp: is_high_def word_le_nat_alt word_less_nat_alt)

lemma is_low_plain: "is_low c \<Longrightarrow> c \<noteq> 0x22 \<and> c \<noteq> 0x5C \<and> \<not> c < 0x20"
  by (auto simp: is_low_def word_le_nat_alt word_less_nat_alt)

lemma lex_string_quote_chars:
  "lex_string (quote_chars s @ 0x22 # rest) = Some (s, rest)"
proof (induction s rule: quote_chars.induct)
  case 1
  show ?case by simp
next
  case (2 c)
  show ?case by (simp add: lex_string_quote_unit consS_def)
next
  case (3 c d cs)
  show ?case
  proof (cases "is_high c \<and> is_low d")
    case True
    with "3.IH"(1) is_high_plain [of c] is_low_plain [of d] show ?thesis
      by (simp add: consS_def)
  next
    case False
    then have "quote_chars (c # d # cs) = quote_unit c @ quote_chars (d # cs)"
      by auto
    with "3.IH"(2) [OF False] show ?thesis
      by (simp only: append_assoc lex_string_quote_unit) (simp add: consS_def)
  qed
qed

subsection \<open>A printed integer reads back\<close>

lemma is_digit_iff: "is_digit c \<longleftrightarrow> 48 \<le> unat c \<and> unat c \<le> 57"
  by (simp add: is_digit_def word_le_nat_alt)

lemma unat_digit: "d < 10 \<Longrightarrow> unat (digit d) = 48 + d"
  by (simp add: digit_def unat_cu del: of_nat_add)

lemma is_digit_of_nat: "d < 10 \<Longrightarrow> is_digit (digit d)"
  by (simp add: is_digit_iff unat_digit)

lemma show_nat_digits: "c \<in> set (show_nat n) \<Longrightarrow> is_digit c"
proof (induction n rule: show_nat.induct)
  case (1 n)
  then show ?case
    by (subst (asm) (2) show_nat.simps) (auto simp: is_digit_of_nat split: if_splits)
qed

lemma show_nat_nonempty: "show_nat n \<noteq> []"
  by (subst show_nat.simps) simp

lemma nat_of_digits_snoc: "nat_of_digits (ds @ [c]) = 10 * nat_of_digits ds + (unat c - 48)"
  by (simp add: nat_of_digits_def)

lemma nat_of_digits_show_nat: "nat_of_digits (show_nat n) = n"
proof (induction n rule: show_nat.induct)
  case (1 n)
  show ?case
  proof (cases "n < 10")
    case True
    then show ?thesis
      by (subst show_nat.simps) (simp add: nat_of_digits_def unat_digit)
  next
    case False
    with "1.IH" show ?thesis
      by (subst show_nat.simps) (simp add: nat_of_digits_snoc unat_digit)
  qed
qed

lemma hd_show_nat_zero: "hd (show_nat n) = 0x30 \<longleftrightarrow> n = 0"
proof (induction n rule: show_nat.induct)
  case (1 n)
  show ?case
  proof (cases "n < 10")
    case True
    have "digit n = 0x30 \<longleftrightarrow> unat (digit n) = unat (0x30 :: cu)"
      by (simp only: word_unat_eq_iff)
    with True show ?thesis
      by (subst show_nat.simps) (simp add: unat_digit)
  next
    case False
    with "1.IH" show ?thesis
      by (subst show_nat.simps) (simp add: show_nat_nonempty)
  qed
qed

lemma show_nat_zero: "show_nat 0 = [0x30]"
  by (subst show_nat.simps) (simp add: digit_def)

lemma show_nat_no_leading_zero: "\<not> (hd (show_nat n) = 0x30 \<and> 1 < length (show_nat n))"
  by (auto simp: hd_show_nat_zero show_nat_zero)

lemma takeWhile_digits:
  "(\<And>c. c \<in> set ds \<Longrightarrow> is_digit c) \<Longrightarrow> number_end rest \<Longrightarrow>
     takeWhile is_digit (ds @ rest) = ds \<and> dropWhile is_digit (ds @ rest) = rest"
  by (induction ds) (auto simp: number_end_def split: list.splits)

lemma lex_tail_number_end:
  "number_end rest \<Longrightarrow> lex_frac rest = Some ([], rest) \<and> lex_exp rest = Some (0, rest)"
  by (auto simp: number_end_def lex_frac_def lex_exp_def split: list.splits)

lemma lex_minus_minus: "lex_minus (0x2D # r) = (True, r)"
  by (simp add: lex_minus_def)

lemma lex_minus_digit: "cs \<noteq> [] \<Longrightarrow> is_digit (hd cs) \<Longrightarrow> lex_minus (cs @ rest) = (False, cs @ rest)"
  by (cases cs) (auto simp: lex_minus_def is_digit_iff)

lemma lex_number_show_int:
  assumes e: "number_end rest"
  shows "lex_number (show_int i @ rest) = Some (of_int i, rest)"
proof -
  define m where "m = nat \<bar>i\<bar>"
  have hd: "is_digit (hd (show_nat m))"
    using show_nat_nonempty [of m] show_nat_digits [of "hd (show_nat m)" m] by simp
  have tw: "takeWhile is_digit (show_nat m @ rest) = show_nat m"
           "dropWhile is_digit (show_nat m @ rest) = rest"
    using takeWhile_digits [OF _ e, of "show_nat m"] show_nat_digits [of _ m] by simp_all
  have val: "nat_of_digits (show_nat m) = m" by (rule nat_of_digits_show_nat)
  note z = show_nat_no_leading_zero [of m]
  have si: "show_int i = (if i < 0 then 0x2D # show_nat m else show_nat m)"
    by (simp add: show_int_def m_def)
  have body: "lex_minus (show_int i @ rest) = (i < 0, show_nat m @ rest)"
    using lex_minus_digit [OF show_nat_nonempty hd, of rest]
    by (simp add: si lex_minus_minus)
  have v: "number_value (i < 0) (show_nat m) [] 0 = of_int i"
    unfolding number_value_def scale10_def Let_def by (simp add: val) (simp add: m_def)
  from z show ?thesis
    by (auto simp: lex_number_def Let_def body tw show_nat_nonempty lex_tail_number_end [OF e] v)
qed

subsection \<open>The tokens of a serialized document\<close>

lemma prependT_simps:
  "prependT [] r = r"
  "prependT (t # ts) r = consT t (prependT ts r)"
  "prependT (ts @ us) r = prependT ts (prependT us r)"
  "consT t (Some us) = Some (t # us)"
  by (cases r; simp add: prependT_def consT_def)+

lemma tokenize_space: "tokenize (0x20 # r) = tokenize r" and tokenize_newline: "tokenize (0x0A # r) = tokenize r"
  by (simp_all add: is_ws_def)

lemma tokenize_spaces: "tokenize (replicate n 0x20 @ r) = tokenize r"
  by (induction n) (simp_all add: tokenize_space del: tokenize.simps)

lemma tokenize_gap: "tokenize (gap @ r) = tokenize r"
  unfolding gap_def by (rule tokenize_spaces)

lemma tokenize_punct:
  "tokenize (0x7B # r) = consT TLBrace (tokenize r)"
  "tokenize (0x7D # r) = consT TRBrace (tokenize r)"
  "tokenize (0x5B # r) = consT TLBrack (tokenize r)"
  "tokenize (0x5D # r) = consT TRBrack (tokenize r)"
  "tokenize (0x3A # r) = consT TColon (tokenize r)"
  "tokenize (0x2C # r) = consT TComma (tokenize r)"
  by (simp_all add: is_ws_def)

lemma tokenize_quote: "tokenize (quote s @ r) = consT (TStr s) (tokenize r)"
  by (simp add: quote_def is_ws_def lex_string_quote_chars)

lemma digit_not_special:
  "is_digit c \<Longrightarrow> \<not> is_ws c \<and> c \<noteq> 0x7B \<and> c \<noteq> 0x7D \<and> c \<noteq> 0x5B \<and> c \<noteq> 0x5D
     \<and> c \<noteq> 0x3A \<and> c \<noteq> 0x2C \<and> c \<noteq> 0x22"
  by (auto simp: is_digit_iff is_ws_def)

lemma tokenize_number_start:
  "c = 0x2D \<or> is_digit c \<Longrightarrow>
     tokenize (c # cs) = (case lex_number (c # cs) of None \<Rightarrow> None
                     | Some (x, rest) \<Rightarrow> consT (TNum x) (tokenize rest))"
  using digit_not_special [of c] by (auto simp: is_ws_def)

lemma tokenize_show_int:
  assumes "number_end r"
  shows "tokenize (show_int i @ r) = consT (TNum (of_int i)) (tokenize r)"
proof -
  obtain c cs where sc: "show_int i = c # cs" and c: "c = 0x2D \<or> is_digit c"
  proof (cases "i < 0")
    case True
    then show ?thesis using that by (simp add: show_int_def)
  next
    case False
    obtain d ds where "show_nat (nat i) = d # ds"
      using show_nat_nonempty [of "nat i"] by (cases "show_nat (nat i)") auto
    moreover from this have "is_digit d" using show_nat_digits [of d "nat i"] by simp
    ultimately show ?thesis using False that by (simp add: show_int_def)
  qed
  have "tokenize (show_int i @ r) = tokenize (c # (cs @ r))" by (simp add: sc)
  also have "\<dots> = (case lex_number (c # (cs @ r)) of None \<Rightarrow> None
                     | Some (x, rest) \<Rightarrow> consT (TNum x) (tokenize rest))"
    by (rule tokenize_number_start [OF c])
  also have "c # (cs @ r) = show_int i @ r" by (simp add: sc)
  finally show ?thesis by (simp add: lex_number_show_int [OF assms])
qed

lemma number_end_simps: "number_end (0x2C # r)" "number_end (0x0A # r)"
  by (simp_all add: number_end_def is_digit_def)

lemma tokenize_stringify_task:
  "tokenize (stringify_task (replicate n 0x20) t @ r) = prependT (toks_task t) (tokenize r)"
  by (simp add: stringify_task_def ser_object_def ser_member_def Let_def toks_task_def
        prependT_simps tokenize_newline tokenize_space tokenize_spaces tokenize_gap tokenize_punct tokenize_quote
        tokenize_show_int number_end_simps del: tokenize.simps)

lemma toks_more_simps: "toks_more [] = []" "toks_more (t # ts) = TComma # toks_task t @ toks_more ts"
  by (simp_all add: toks_more_def)

lemma tokenize_join_tasks:
  "tokenize (join ([0x2C, 0x0A] @ gap) (map (stringify_task gap) (t # ts)) @ r) =
     prependT (toks_task t @ toks_more ts) (tokenize r)"
proof (induction ts arbitrary: t)
  case Nil
  show ?case
    using tokenize_stringify_task [of 4 t r] by (simp add: gap_def toks_more_simps)
next
  case (Cons u us)
  have "tokenize (join ([0x2C, 0x0A] @ gap) (map (stringify_task gap) (t # u # us)) @ r) =
        tokenize (stringify_task gap t @ (0x2C # 0x0A # gap @ join ([0x2C, 0x0A] @ gap) (map (stringify_task gap) (u # us)) @ r))"
    by simp
  also have "\<dots> = prependT (toks_task t)
      (tokenize (0x2C # 0x0A # gap @ join ([0x2C, 0x0A] @ gap) (map (stringify_task gap) (u # us)) @ r))"
    unfolding gap_def by (rule tokenize_stringify_task)
  also have "tokenize (0x2C # 0x0A # gap @ join ([0x2C, 0x0A] @ gap) (map (stringify_task gap) (u # us)) @ r) =
      consT TComma (prependT (toks_task u @ toks_more us) (tokenize r))"
    by (simp only: tokenize_punct tokenize_newline tokenize_gap Cons.IH)
  finally show ?case
    by (simp add: prependT_simps toks_more_simps)
qed

lemma tokenize_stringify_tasks: "tokenize (stringify_tasks db) = Some (toks_tasks db)"
proof (cases db)
  case Nil
  then show ?thesis
    by (simp add: stringify_tasks_def ser_array_def toks_tasks_def is_ws_def consT_def)
next
  case (Cons t ts)
  have "tokenize (stringify_tasks db) =
        tokenize (0x5B # 0x0A # gap @ join ([0x2C, 0x0A] @ gap) (map (stringify_task gap) (t # ts)) @ [0x0A, 0x5D])"
    by (simp add: stringify_tasks_def ser_array_def Cons)
  also have "\<dots> = consT TLBrack (prependT (toks_task t @ toks_more ts) (tokenize [0x0A, 0x5D]))"
    by (simp only: tokenize_punct tokenize_newline tokenize_gap tokenize_join_tasks)
  also have "tokenize [0x0A, 0x5D] = Some [TRBrack]"
    by (simp add: is_ws_def consT_def)
  finally show ?thesis
    by (simp add: toks_tasks_def Cons prependT_def consT_def)
qed

subsection \<open>Parsing a serialized document\<close>

lemma parse_task: "parse_value (toks_task t @ r) = Some (json_of_task t, r)"
  by (simp add: toks_task_def json_of_task_def parse_members.simps)

lemma parse_elements_tasks:
  "parse_elements (toks_task t @ toks_more ts @ TRBrack # r) = Some (map json_of_task (t # ts), r)"
proof (induction ts arbitrary: t)
  case Nil
  show ?case
    by (subst parse_elements.simps) (simp add: parse_task toks_more_simps, simp add: toks_task_def)
next
  case (Cons u us)
  show ?case
    by (subst parse_elements.simps)
       (simp add: parse_task toks_more_simps Cons.IH, simp add: toks_task_def)
qed

lemma parse_toks_tasks: "parse_value (toks_tasks db) = Some (JArr (map json_of_task db), [])"
proof (cases db)
  case Nil
  then show ?thesis by (simp add: toks_tasks_def)
next
  case (Cons t ts)
  obtain xs where xs: "toks_task t @ toks_more ts @ [TRBrack] = TLBrace # xs"
    by (simp add: toks_task_def)
  have "parse_value (toks_tasks db) = parse_value (TLBrack # TLBrace # xs)"
    by (simp add: toks_tasks_def Cons xs)
  also have "\<dots> = map_option (\<lambda>(vs, rest). (JArr vs, rest)) (parse_elements (TLBrace # xs))"
    by simp
  also have "parse_elements (TLBrace # xs) = Some (map json_of_task (t # ts), [])"
    using parse_elements_tasks [of t ts "[]"] by (simp add: xs)
  finally show ?thesis
    by (simp add: Cons)
qed

lemma JSON_parse_stringify_tasks:
  "JSON_parse (stringify_tasks db) = Some (JArr (map json_of_task db))"
  by (simp add: JSON_parse_def tokenize_stringify_tasks parse_toks_tasks)

lemma as_int_of_int: "as_int (of_int i) = Some i"
  by (simp add: as_int_def)

lemma as_task_json: "as_task (json_of_task t) = Some t"
  by (simp add: as_task_def json_of_task_def as_int_of_int)

lemma as_tasks_json: "as_tasks (JArr (map json_of_task db)) = Some db"
  by (induction db) (simp_all add: as_tasks_def as_task_json)

lemma JSON_parse_stringify_counter:
  "JSON_parse (stringify_counter c) = Some (json_of_counter c)"
proof -
  have "tokenize (stringify_counter c) =
          Some [TLBrace, TStr (ascii ''counter''), TColon, TNum (of_int (counter c)), TRBrace]"
    by (simp add: stringify_counter_def ser_object_def ser_member_def Let_def
          tokenize_newline tokenize_space tokenize_gap tokenize_punct tokenize_quote tokenize_show_int number_end_simps
          consT_def del: tokenize.simps(2))
  then show ?thesis
    by (simp add: JSON_parse_def json_of_counter_def parse_members.simps)
qed

lemma as_counter_json: "as_counter (json_of_counter c) = Some c"
  by (simp add: as_counter_def json_of_counter_def as_int_of_int)

lemma stringify_tasks_nonempty: "stringify_tasks db \<noteq> []"
  by (simp add: stringify_tasks_def ser_array_def Let_def)

lemma stringify_counter_nonempty: "stringify_counter c \<noteq> []"
  by (simp add: stringify_counter_def ser_object_def Let_def)

subsection \<open>A serialized document survives the UTF-8 encoding\<close>

lemma plain_iff: "plain c \<longleftrightarrow> unat c < 55296 \<or> 57343 < unat c"
  by (auto simp: plain_def is_high_def is_low_def word_le_nat_alt)

lemma preserved_Nil: "preserved []"
  by (simp add: preserved_def)

lemma preserved_append: "preserved a \<Longrightarrow> preserved b \<Longrightarrow> preserved (a @ b)"
  by (simp add: preserved_def)

lemma toWellFormed_plain: "plain c \<Longrightarrow> toWellFormed (c # r) = c # toWellFormed r"
  by (cases r) (simp_all add: plain_def)

lemma preserved_Cons: "plain c \<Longrightarrow> preserved s \<Longrightarrow> preserved (c # s)"
  by (simp add: preserved_def toWellFormed_plain)

lemma preserved_plain: "(\<And>c. c \<in> set a \<Longrightarrow> plain c) \<Longrightarrow> preserved a"
  by (induction a) (simp_all add: preserved_Nil preserved_Cons)

lemma preserved_pair: "is_high c \<Longrightarrow> is_low d \<Longrightarrow> preserved s \<Longrightarrow> preserved (c # d # s)"
  by (simp add: preserved_def)

lemma plain_hexdigit: "n < 16 \<Longrightarrow> plain (hexdigit n)"
  by (simp add: plain_iff hexdigit_def unat_cu del: of_nat_add)

lemma preserved_hex4: "preserved (hex4 c)"
proof -
  have "unat c div 4096 < 16"
    using unsigned_less [of c, where ?'a = nat] by simp
  then show ?thesis
    by (simp add: hex4_def Let_def preserved_Cons preserved_Nil plain_hexdigit)
qed

lemma preserved_quote_unit: "preserved (quote_unit c)"
proof -
  have esc: "preserved ([0x5C, 0x75] @ hex4 c)"
    by (simp add: preserved_Cons preserved_hex4 plain_iff)
  have self: "\<not> (c < 0x20 \<or> is_high c \<or> is_low c) \<Longrightarrow> preserved [c]"
    by (simp add: preserved_Cons preserved_Nil plain_def)
  have lit: "preserved [0x5C, d]" if "unat d < 128" for d
    using that by (simp add: preserved_Cons preserved_Nil plain_iff)
  show ?thesis
    unfolding quote_unit_def using esc self by (simp add: lit)
qed

lemma preserved_quote_chars: "preserved (quote_chars s)"
  by (induction s rule: quote_chars.induct)
     (simp_all add: preserved_Nil preserved_quote_unit preserved_pair preserved_append)

lemma preserved_quote: "preserved (quote s)"
  unfolding quote_def
  by (intro preserved_Cons preserved_append preserved_quote_chars preserved_Nil) (simp_all add: plain_iff)

lemma plain_digit: "is_digit c \<Longrightarrow> plain c"
  by (simp add: plain_iff is_digit_iff)

lemma preserved_show_nat: "preserved (show_nat n)"
  by (rule preserved_plain) (auto dest: show_nat_digits simp: plain_digit)

lemma preserved_show_int: "preserved (show_int i)"
  by (simp add: show_int_def preserved_Cons preserved_show_nat plain_iff)

lemma preserved_gap: "preserved gap"
  by (rule preserved_plain) (simp add: gap_def plain_iff)

lemma preserved_join: "preserved sep \<Longrightarrow> (\<And>x. x \<in> set xs \<Longrightarrow> preserved x) \<Longrightarrow> preserved (join sep xs)"
  by (induction sep xs rule: join.induct) (simp_all add: preserved_Nil preserved_append)

lemma preserved_ser_object:
  "(\<And>m. m \<in> set members \<Longrightarrow> preserved (snd m)) \<Longrightarrow> preserved stepback \<Longrightarrow> preserved (ser_object stepback members)"
  unfolding ser_object_def Let_def
  by (auto simp: plain_iff ser_member_def
           intro!: preserved_Cons preserved_append preserved_join preserved_Nil preserved_gap preserved_quote)

lemma preserved_ser_array:
  "(\<And>x. x \<in> set items \<Longrightarrow> preserved x) \<Longrightarrow> preserved stepback \<Longrightarrow> preserved (ser_array stepback items)"
  unfolding ser_array_def Let_def
  by (auto simp: plain_iff intro!: preserved_Cons preserved_append preserved_join preserved_Nil preserved_gap)

lemma preserved_stringify_task: "preserved stepback \<Longrightarrow> preserved (stringify_task stepback t)"
  unfolding stringify_task_def
  by (rule preserved_ser_object) (auto simp: preserved_show_int preserved_quote)

lemma toWellFormed_stringify_tasks: "toWellFormed (stringify_tasks db) = stringify_tasks db"
proof -
  have "preserved (stringify_tasks db)"
    unfolding stringify_tasks_def
    by (rule preserved_ser_array) (auto simp: preserved_stringify_task preserved_gap preserved_Nil)
  from this [unfolded preserved_def, rule_format, of "[]"] show ?thesis by simp
qed

lemma toWellFormed_stringify_counter: "toWellFormed (stringify_counter c) = stringify_counter c"
proof -
  have "preserved (stringify_counter c)"
    unfolding stringify_counter_def
    by (rule preserved_ser_object) (auto simp: preserved_show_int preserved_Nil)
  from this [unfolded preserved_def, rule_format, of "[]"] show ?thesis by simp
qed

subsection \<open>Reading after writing and printing\<close>

lemma readJSONFile_files:
  "files w p = files w' p \<Longrightarrow> readJSONFile typed w p d = readJSONFile typed w' p d"
  by (simp add: readJSONFile_def readFile_def)

lemma files_console_log [simp]: "files (console_log w m) = files w"
  and writes_console_log [simp]: "writes (console_log w m) = writes w"
  and console_console_log [simp]: "console (console_log w m) = console w @ [m]"
  by (simp_all add: console_log_def)

lemma files_console_error [simp]: "files (console_error w m) = files w"
  and writes_console_error [simp]: "writes (console_error w m) = writes w"
  and console_console_error [simp]: "console (console_error w m) = console w @ [m]"
  by (simp_all add: console_error_def)

lemma files_writeFile [simp]:
  "files (writeFile w p data) = (files w)(p := Inr (toWellFormed data))"
  and writes_writeFile [simp]: "writes (writeFile w p data) = writes w @ [(p, data)]"
  and console_writeFile [simp]: "console (writeFile w p data) = console w"
  by (simp_all add: writeFile_def)

lemma readJSONFile_console_log [simp]:
  "readJSONFile typed (console_log w m) p d = readJSONFile typed w p d"
  by (rule readJSONFile_files) simp

lemma readJSONFile_other [simp]:
  "p \<noteq> q \<Longrightarrow> readJSONFile typed (writeFile w p data) q d = readJSONFile typed w q d"
  by (rule readJSONFile_files) simp

lemma readJSONFile_tasks_written [simp]:
  "readJSONFile as_tasks (writeFile w p (stringify_tasks db)) p d = Inr db"
  by (simp add: readJSONFile_def readFile_def toWellFormed_stringify_tasks
        stringify_tasks_nonempty JSON_parse_stringify_tasks as_tasks_json)

lemma readJSONFile_counter_written [simp]:
  "readJSONFile as_counter (writeFile w p (stringify_counter c)) p d = Inr c"
  by (simp add: readJSONFile_def readFile_def toWellFormed_stringify_counter
        stringify_counter_nonempty JSON_parse_stringify_counter as_counter_json)

lemma loadTasks_console_log [simp]: "loadTasks (console_log w m) = loadTasks w"
  and loadCounter_console_log [simp]: "loadCounter (console_log w m) = loadCounter w"
  by (simp_all add: loadTasks_def loadCounter_def)

lemma loadTasks_written [simp]: "loadTasks (writeFile w ''db.json'' (stringify_tasks db)) = Inr db"
  and loadCounter_written [simp]:
    "loadCounter (writeFile w ''counter.json'' (stringify_counter c)) = Inr c"
  by (simp_all add: loadTasks_def loadCounter_def)

lemma loadTasks_other [simp]: "loadTasks (writeFile w ''counter.json'' data) = loadTasks w"
  and loadCounter_other [simp]: "loadCounter (writeFile w ''db.json'' data) = loadCounter w"
  by (simp_all add: loadTasks_def loadCounter_def)

lemma readJSONFile_malformed:
  assumes "files w p = Inr data" and "data \<noteq> []" and "JSON_parse data = None"
  shows "readJSONFile typed w p d = Inl SyntaxError"
  using assms by (simp add: readJSONFile_def readFile_def)

lemma readJSONFile_default:
  assumes "files w p = Inl ''ENOENT'' \<or> files w p = Inr []"
  shows "readJSONFile typed w p d = Inr d"
  using assms by (auto simp: readJSONFile_def readFile_def)

lemma ctr_update: "(c :: ctr)\<lparr>counter := n\<rparr> = \<lparr>counter = n\<rparr>"
  by (cases c) simp

subsection \<open>The array methods\<close>

lemma some_iff: "some P xs \<longleftrightarrow> (\<exists>x\<in>set xs. P x)"
  by (induction xs) simp_all

lemma findIndex_ge: "- 1 \<le> findIndex P xs"
  by (induction xs) (simp_all add: Let_def)

lemma findIndex_none: "findIndex P xs = - 1 \<longleftrightarrow> (\<forall>x\<in>set xs. \<not> P x)"
proof (induction xs)
  case Nil
  show ?case by simp
next
  case (Cons x xs)
  with findIndex_ge [of P xs] show ?case by (auto simp: Let_def)
qed

lemma findIndex_first:
  "\<exists>x\<in>set xs. P x \<Longrightarrow>
     \<exists>pre x post. xs = pre @ x # post \<and> P x \<and> (\<forall>y\<in>set pre. \<not> P y)
        \<and> findIndex P xs = int (length pre)"
proof (induction xs)
  case Nil
  then show ?case by simp
next
  case (Cons a xs)
  show ?case
  proof (cases "P a")
    case True
    then have "a # xs = [] @ a # xs \<and> P a \<and> (\<forall>y\<in>set []. \<not> P y)
        \<and> findIndex P (a # xs) = int (length ([] :: 'a list))"
      by simp
    then show ?thesis by blast
  next
    case False
    with Cons.prems have "\<exists>x\<in>set xs. P x" by simp
    from Cons.IH [OF this] obtain pre x post where
      d: "xs = pre @ x # post" "P x" "\<forall>y\<in>set pre. \<not> P y" "findIndex P xs = int (length pre)"
      by blast
    with False have "a # xs = (a # pre) @ x # post \<and> P x \<and> (\<forall>y\<in>set (a # pre). \<not> P y)
        \<and> findIndex P (a # xs) = int (length (a # pre))"
      by (simp add: Let_def)
    then show ?thesis by blast
  qed
qed

text \<open>An index that \<^verbatim>\<open>findIndex\<close> returns is in range, so \<open>db ! nat taskIndex\<close> in \<^verbatim>\<open>edit\<close> is a task of \<open>db\<close>.\<close>

lemma findIndex_in_range:
  assumes "findIndex P xs \<noteq> - 1"
  shows "0 \<le> findIndex P xs \<and> nat (findIndex P xs) < length xs \<and> P (xs ! nat (findIndex P xs))"
proof -
  from assms have "\<exists>x\<in>set xs. P x" by (simp add: findIndex_none)
  from findIndex_first [OF this] obtain pre x post where
    "xs = pre @ x # post" "P x" "findIndex P xs = int (length pre)"
    by blast
  then show ?thesis by simp
qed


lemma foldl_list_console:
  "foldl (\<lambda>w element. console_log w (ElementMsg element)) w db =
     w\<lparr>console := console w @ map ElementMsg db\<rparr>"
  by (induction db arbitrary: w) (simp_all add: console_log_def)

lemma show_element_console:
  "show_element w element = w\<lparr>console := console w @ element_lines element\<rparr>"
  by (simp add: show_element_def element_lines_def console_log_def Let_def)

lemma foldl_filter_console:
  "foldl (\<lambda>w element. if status element = s then show_element w element else w) w db =
     w\<lparr>console := console w @ concat (map element_lines (filter (\<lambda>task. status task = s) db))\<rparr>"
  by (induction db arbitrary: w) (simp_all add: show_element_console)

subsection \<open>What each command does\<close>

lemma add_action_duplicate:
  assumes "loadTasks w = Inr db" and "\<exists>task\<in>set db. title task = add_title options"
  shows "add_action w options = console_log w AlreadyExistsMsg"
  using assms by (simp add: add_action_def loadTasks_def some_iff)

lemma add_action_new:
  assumes "loadTasks w = Inr db" and "loadCounter w = Inr c"
    and "\<forall>task\<in>set db. title task \<noteq> add_title options"
  shows "add_action w options =
     console_log
       (writeFile
          (writeFile (console_log w (DbMsg (db @ [new_task c options])))
             ''counter.json'' (stringify_counter \<lparr>counter = counter c + 1\<rparr>))
          ''db.json'' (stringify_tasks (db @ [new_task c options])))
       AddedMsg"
  using assms
  by (simp add: add_action_def loadTasks_def loadCounter_def some_iff new_task_def Let_def ctr_update)

lemma edit_action_missing:
  assumes "loadTasks w = Inr db"
    and "\<forall>task\<in>set db. Some (id' task) \<noteq> parseInt (edit_id options)"
  shows "edit_action w options = console_log w NotFoundMsg"
proof -
  have "findIndex (\<lambda>task. Some (id' task) = parseInt (edit_id options)) db = - 1"
    using assms(2) by (simp add: findIndex_none)
  with assms(1) show ?thesis
    by (simp add: edit_action_def loadTasks_def)
qed

lemma delete_action_missing:
  assumes "loadTasks w = Inr db"
    and "\<forall>task\<in>set db. Some (id' task) \<noteq> parseInt (delete_id options)"
  shows "delete_action w options = console_log w NotFoundMsg"
proof -
  have "findIndex (\<lambda>task. Some (id' task) = parseInt (delete_id options)) db = - 1"
    using assms(2) by (simp add: findIndex_none)
  with assms(1) show ?thesis
    by (simp add: delete_action_def loadTasks_def)
qed


lemma add_action_unreadable_db:
  "readJSONFile as_tasks w ''db.json'' [] = Inl e \<Longrightarrow>
     add_action w options = console_error (console_error w AddErrorMsg) (ErrorMsg e)"
  by (simp add: add_action_def)

lemma edit_action_unreadable_db:
  "readJSONFile as_tasks w ''db.json'' [] = Inl e \<Longrightarrow>
     edit_action w options = console_error (console_error w EditErrorMsg) (ErrorMsg e)"
  by (simp add: edit_action_def)

lemma delete_action_unreadable_db:
  "readJSONFile as_tasks w ''db.json'' [] = Inl e \<Longrightarrow>
     delete_action w options = console_error (console_error w DeleteErrorMsg) (ErrorMsg e)"
  by (simp add: delete_action_def)

lemma list_action_unreadable_db:
  "readJSONFile as_tasks w ''db.json'' [] = Inl e \<Longrightarrow> list_action w = Inl e"
  by (simp add: list_action_def)

lemma filter_action_unreadable_db:
  "readJSONFile as_tasks w ''db.json'' [] = Inl e \<Longrightarrow> filter_action w options = Inl e"
  by (simp add: filter_action_def)

lemma add_action_unreadable_counter:
  assumes "loadTasks w = Inr db" and "\<forall>task\<in>set db. title task \<noteq> add_title options"
    and "readJSONFile as_counter w ''counter.json'' \<lparr>counter = 0\<rparr> = Inl e"
  shows "add_action w options = console_error (console_error w AddErrorMsg) (ErrorMsg e)"
  using assms by (simp add: add_action_def loadTasks_def some_iff)

lemma delete_action_unreadable_counter:
  assumes "loadTasks w = Inr db" and "\<exists>task\<in>set db. Some (id' task) = parseInt (delete_id options)"
    and "readJSONFile as_counter w ''counter.json'' \<lparr>counter = 0\<rparr> = Inl e"
  shows "delete_action w options = console_error (console_error w DeleteErrorMsg) (ErrorMsg e)"
proof -
  have "findIndex (\<lambda>task. Some (id' task) = parseInt (delete_id options)) db \<noteq> - 1"
    using assms(2) by (simp add: findIndex_none)
  with assms(1,3) show ?thesis
    by (simp add: delete_action_def loadTasks_def Let_def)
qed

subsection \<open>The example states\<close>

lemma loadTasks_empty: "loadTasks empty_world = Inr []"
  by (simp add: loadTasks_def empty_world_def readJSONFile_default)

lemma loadCounter_empty: "loadCounter empty_world = Inr \<lparr>counter = 0\<rparr>"
  by (simp add: loadCounter_def empty_world_def readJSONFile_default)

lemma loadTasks_example: "loadTasks example_world = Inr [task_a, task_b]"
  by (simp add: example_world_def saveTasks_def saveCounter_def)

lemma loadCounter_example: "loadCounter example_world = Inr \<lparr>counter = 2\<rparr>"
  by (simp add: example_world_def saveTasks_def saveCounter_def)

lemma parseInt_examples:
  "parseInt (ascii ''2'') = Some 2" "parseInt (ascii ''7'') = Some 7" "parseInt (ascii ''abc'') = None"
  by code_simp+

lemma JSON_parse_brace: "JSON_parse [0x7B] = None"
  by code_simp

lemma broken_db_file: "files broken_db_world ''db.json'' = Inr [0x7B]"
  by (simp add: broken_db_world_def is_high_def is_low_def)

lemma broken_counter_file: "files broken_counter_world ''counter.json'' = Inr [0x7B]"
  by (simp add: broken_counter_world_def is_high_def is_low_def)

lemma loadTasks_broken_counter: "loadTasks broken_counter_world = Inr [task_a, task_b]"
  by (simp add: broken_counter_world_def saveTasks_def)

subsection \<open>The scenario, computed\<close>

text \<open>
  The model runs: the four commands of the scenario are evaluated, the files they write are
  read back by the tokenizer and the parser, and the outcome is the one the specification
  expects.
\<close>

lemma scenario:
  "loadTasks after_add = Inr [\<lparr>id' = 1, title = ascii ''A'', status = ascii ''todo''\<rparr>]
   \<and> loadCounter after_add = Inr \<lparr>counter = 1\<rparr>
   \<and> console after_second_add = console after_add @ [AlreadyExistsMsg]
   \<and> writes after_second_add = writes after_add
   \<and> loadTasks after_edit = Inr [\<lparr>id' = 1, title = ascii ''A'', status = ascii ''doing''\<rparr>]
   \<and> loadTasks after_delete = Inr []
   \<and> loadCounter after_delete = Inr \<lparr>counter = 0\<rparr>"
  by code_simp

section \<open>The claims\<close>

text \<open>
  In every claim the stored collection and the stored counter of a state \<open>w\<close> are what
  \<open>loadTasks w\<close> and \<open>loadCounter w\<close> return.
\<close>

subsection \<open>C1: add appends one task\<close>




subsection \<open>C2: add with a title that exists\<close>

text \<open>
  Claim C2. For every stored collection, \<^verbatim>\<open>add\<close> with a title equal to the title of a stored
  task reports that the task already exists and changes nothing else: the only effect is the
  printed line, no file is written, and the stored collection and counter are as before.
\<close>

theorem add_duplicate_title_no_mutation:
  assumes "loadTasks w = Inr db" and "\<exists>task\<in>set db. title task = add_title options"
  shows "add_action w options = console_log w AlreadyExistsMsg
         \<and> files (add_action w options) = files w
         \<and> writes (add_action w options) = writes w
         \<and> loadTasks (add_action w options) = Inr db
         \<and> loadCounter (add_action w options) = loadCounter w"
  using add_action_duplicate [OF assms] assms(1) by simp

theorem add_duplicate_title_no_mutation_witness:
  "add_action example_world \<lparr>add_title = ascii ''B'', add_status = None\<rparr>
     = console_log example_world AlreadyExistsMsg
   \<and> files (add_action example_world \<lparr>add_title = ascii ''B'', add_status = None\<rparr>) = files example_world
   \<and> writes (add_action example_world \<lparr>add_title = ascii ''B'', add_status = None\<rparr>) = writes example_world
   \<and> loadTasks (add_action example_world \<lparr>add_title = ascii ''B'', add_status = None\<rparr>)
       = Inr [task_a, task_b]
   \<and> loadCounter (add_action example_world \<lparr>add_title = ascii ''B'', add_status = None\<rparr>)
       = loadCounter example_world"
proof -
  have "\<exists>task\<in>set [task_a, task_b]. title task = add_title \<lparr>add_title = ascii ''B'', add_status = None\<rparr>"
    by (simp add: task_b_def)
  from add_duplicate_title_no_mutation [OF loadTasks_example this]
  show ?thesis .
qed

subsection \<open>C3: edit and delete with an id that matches no task\<close>

text \<open>
  Claim C3. For every stored collection, \<^verbatim>\<open>edit\<close> and \<^verbatim>\<open>delete\<close> with an id that matches no
  stored task report that the task was not found and change nothing else: the only effect is
  the printed line, no file is written, and the stored collection and counter are as before.
\<close>

theorem missing_id_not_found:
  assumes "loadTasks w = Inr db"
    and "\<forall>task\<in>set db. Some (id' task) \<noteq> parseInt i"
  shows "edit_action w \<lparr>edit_title = t, edit_id = i, edit_status = s\<rparr> = console_log w NotFoundMsg
         \<and> files (edit_action w \<lparr>edit_title = t, edit_id = i, edit_status = s\<rparr>) = files w
         \<and> writes (edit_action w \<lparr>edit_title = t, edit_id = i, edit_status = s\<rparr>) = writes w
         \<and> loadTasks (edit_action w \<lparr>edit_title = t, edit_id = i, edit_status = s\<rparr>) = Inr db
         \<and> loadCounter (edit_action w \<lparr>edit_title = t, edit_id = i, edit_status = s\<rparr>) = loadCounter w
         \<and> delete_action w \<lparr>delete_id = i\<rparr> = console_log w NotFoundMsg
         \<and> files (delete_action w \<lparr>delete_id = i\<rparr>) = files w
         \<and> writes (delete_action w \<lparr>delete_id = i\<rparr>) = writes w
         \<and> loadTasks (delete_action w \<lparr>delete_id = i\<rparr>) = Inr db
         \<and> loadCounter (delete_action w \<lparr>delete_id = i\<rparr>) = loadCounter w"
proof -
  have e: "edit_action w \<lparr>edit_title = t, edit_id = i, edit_status = s\<rparr> = console_log w NotFoundMsg"
    by (rule edit_action_missing [OF assms(1)]) (simp add: assms(2))
  have d: "delete_action w \<lparr>delete_id = i\<rparr> = console_log w NotFoundMsg"
    by (rule delete_action_missing [OF assms(1)]) (simp add: assms(2))
  show ?thesis unfolding e d using assms(1) by simp
qed

theorem missing_id_not_found_witness:
  "edit_action example_world \<lparr>edit_title = Some (ascii ''Z''), edit_id = ascii ''7'', edit_status = None\<rparr> = console_log example_world NotFoundMsg
   \<and> files (edit_action example_world \<lparr>edit_title = Some (ascii ''Z''), edit_id = ascii ''7'', edit_status = None\<rparr>) = files example_world
   \<and> writes (edit_action example_world \<lparr>edit_title = Some (ascii ''Z''), edit_id = ascii ''7'', edit_status = None\<rparr>) = writes example_world
   \<and> loadTasks (edit_action example_world \<lparr>edit_title = Some (ascii ''Z''), edit_id = ascii ''7'', edit_status = None\<rparr>) = Inr [task_a, task_b]
   \<and> loadCounter (edit_action example_world \<lparr>edit_title = Some (ascii ''Z''), edit_id = ascii ''7'', edit_status = None\<rparr>) = loadCounter example_world
   \<and> delete_action example_world \<lparr>delete_id = ascii ''7''\<rparr> = console_log example_world NotFoundMsg
   \<and> files (delete_action example_world \<lparr>delete_id = ascii ''7''\<rparr>) = files example_world
   \<and> writes (delete_action example_world \<lparr>delete_id = ascii ''7''\<rparr>) = writes example_world
   \<and> loadTasks (delete_action example_world \<lparr>delete_id = ascii ''7''\<rparr>) = Inr [task_a, task_b]
   \<and> loadCounter (delete_action example_world \<lparr>delete_id = ascii ''7''\<rparr>) = loadCounter example_world"
proof -
  have "\<forall>task\<in>set [task_a, task_b]. Some (id' task) \<noteq> parseInt (ascii ''7'')"
    by (simp add: parseInt_examples task_a_def task_b_def)
  from missing_id_not_found [OF loadTasks_example this]
  show ?thesis .
qed

subsection \<open>C4: delete removes the first match\<close>



subsection \<open>C5: filter prints a subsequence of what list prints\<close>

text \<open>
  Claim C5. For every stored collection \<open>db\<close> and every status \<open>s\<close>, \<^verbatim>\<open>list\<close> prints the tasks
  of \<open>db\<close> in stored order, and \<^verbatim>\<open>filter\<close> with the status \<open>s\<close> prints exactly the tasks of
  \<open>db\<close> whose status equals \<open>s\<close>, in the same order and nothing else.
\<close>

theorem filter_is_subsequence_of_list:
  assumes "loadTasks w = Inr db"
  shows "list_action w = Inr (w\<lparr>console := console w @ map ElementMsg db\<rparr>)
         \<and> filter_action w \<lparr>filter_status = Some s\<rparr>
             = Inr (w\<lparr>console := console w
                      @ concat (map element_lines (filter (\<lambda>task. status task = s) db))\<rparr>)"
  using assms
  by (simp add: list_action_def filter_action_def loadTasks_def
        foldl_list_console foldl_filter_console)

theorem filter_is_subsequence_of_list_witness:
  "list_action example_world
     = Inr (example_world\<lparr>console := console example_world @ map ElementMsg [task_a, task_b]\<rparr>)
   \<and> filter_action example_world \<lparr>filter_status = Some (ascii ''done'')\<rparr>
       = Inr (example_world\<lparr>console := console example_world
                @ concat (map element_lines
                            (filter (\<lambda>task. status task = ascii ''done'') [task_a, task_b]))\<rparr>)"
  using filter_is_subsequence_of_list [OF loadTasks_example] .

subsection \<open>C6: saving and loading\<close>

text \<open>
  Claim C6. For every task collection \<open>db\<close> and every state, saving \<open>db\<close> and then loading
  yields \<open>db\<close>: the text that \<^verbatim>\<open>JSON.stringify\<close> writes is read back by \<^verbatim>\<open>readJSONFile\<close> as the
  same collection.
\<close>

theorem save_then_load_tasks: "loadTasks (saveTasks w db) = Inr db"
  by (simp add: saveTasks_def)

subsection \<open>C7: the order of the two writes of add\<close>

text \<open>
  As the claim is worded, \<^verbatim>\<open>add\<close> saves the task document first. The program writes
  \<^verbatim>\<open>counter.json\<close> first and \<^verbatim>\<open>db.json\<close> second, here on the empty store.
\<close>

theorem add_writes_counter_first_counterexample:
  "map fst (writes (add_action empty_world \<lparr>add_title = ascii ''A'', add_status = None\<rparr>))
     = [''counter.json'', ''db.json'']
   \<and> [''counter.json'', ''db.json''] \<noteq> [''db.json'', ''counter.json'']"
proof -
  have "\<forall>task\<in>set ([] :: task list). title task \<noteq> add_title \<lparr>add_title = ascii ''A'', add_status = None\<rparr>"
    by simp
  from add_action_new [OF loadTasks_empty loadCounter_empty this]
  show ?thesis
    by (simp add: empty_world_def)
qed

text \<open>
  Claim C7, amended. For every successful \<^verbatim>\<open>add\<close> (the title is not stored yet), the command
  makes exactly two writes, in this order: the counter document first, then the task
  document.
\<close>

theorem add_write_order:
  assumes "loadTasks w = Inr db" and "loadCounter w = Inr c"
    and "\<forall>task\<in>set db. title task \<noteq> add_title options"
  shows "\<exists>counter_text db_text.
           writes (add_action w options)
             = writes w @ [(''counter.json'', counter_text), (''db.json'', db_text)]
           \<and> counter_text = stringify_counter \<lparr>counter = counter c + 1\<rparr>
           \<and> db_text = stringify_tasks (db @ [new_task c options])"
  using add_action_new [OF assms] by simp

theorem add_write_order_witness:
  "\<exists>counter_text db_text.
     writes (add_action example_world \<lparr>add_title = ascii ''C'', add_status = None\<rparr>)
       = writes example_world @ [(''counter.json'', counter_text), (''db.json'', db_text)]
     \<and> counter_text = stringify_counter \<lparr>counter = counter \<lparr>counter = 2\<rparr> + 1\<rparr>
     \<and> db_text = stringify_tasks
         ([task_a, task_b] @ [new_task \<lparr>counter = 2\<rparr> \<lparr>add_title = ascii ''C'', add_status = None\<rparr>])"
proof -
  have "\<forall>task\<in>set [task_a, task_b].
          title task \<noteq> add_title \<lparr>add_title = ascii ''C'', add_status = None\<rparr>"
    by (simp add: task_a_def task_b_def ascii_def)
  from add_write_order [OF loadTasks_example loadCounter_example this]
  show ?thesis .
qed

subsection \<open>C8: absent and empty documents\<close>

text \<open>
  Claim C8. When the counter document is absent or empty, loading the counter returns the
  counter 0; when the task document is absent or empty, loading the tasks returns the empty
  collection. Neither is an error.
\<close>

theorem load_defaults:
  "(files w ''counter.json'' = Inl ''ENOENT'' \<or> files w ''counter.json'' = Inr []
      \<longrightarrow> loadCounter w = Inr \<lparr>counter = 0\<rparr>)
   \<and> (files w ''db.json'' = Inl ''ENOENT'' \<or> files w ''db.json'' = Inr []
      \<longrightarrow> loadTasks w = Inr [])"
  by (simp add: loadCounter_def loadTasks_def readJSONFile_default)

theorem load_defaults_witness:
  "files blank_db_world ''counter.json'' = Inl ''ENOENT''
   \<and> loadCounter blank_db_world = Inr \<lparr>counter = 0\<rparr>
   \<and> files blank_db_world ''db.json'' = Inr []
   \<and> loadTasks blank_db_world = Inr []"
  using load_defaults [of blank_db_world]
  by (simp add: blank_db_world_def empty_world_def)

subsection \<open>C9: malformed documents\<close>

text \<open>
  Claim C9. When a document is present and not empty but is not a JSON text, reading it
  fails with the \<^verbatim>\<open>SyntaxError\<close> of the parser and no default value takes its place. The
  command that read it ends there: \<^verbatim>\<open>add\<close>, \<^verbatim>\<open>edit\<close> and \<^verbatim>\<open>delete\<close> print the error and write no
  file, \<^verbatim>\<open>list\<close> and \<^verbatim>\<open>filter\<close> end with the error. This holds for the task document, read
  first by every command, and for the counter document, read by \<^verbatim>\<open>add\<close> (the title being new)
  and by \<^verbatim>\<open>delete\<close> (the id being stored).
\<close>

theorem malformed_document_is_fatal:
  assumes "files w p = Inr data" and "data \<noteq> []" and "JSON_parse data = None"
  shows "readJSONFile typed w p dflt = Inl SyntaxError
     \<and> (p = ''db.json'' \<longrightarrow>
          add_action w ao = console_error (console_error w AddErrorMsg) (ErrorMsg SyntaxError)
          \<and> edit_action w eo = console_error (console_error w EditErrorMsg) (ErrorMsg SyntaxError)
          \<and> delete_action w dopt
              = console_error (console_error w DeleteErrorMsg) (ErrorMsg SyntaxError)
          \<and> list_action w = Inl SyntaxError
          \<and> filter_action w fo = Inl SyntaxError)
     \<and> (p = ''counter.json'' \<longrightarrow>
          (\<forall>db. loadTasks w = Inr db \<longrightarrow>
             ((\<forall>task\<in>set db. title task \<noteq> add_title ao) \<longrightarrow>
                add_action w ao
                  = console_error (console_error w AddErrorMsg) (ErrorMsg SyntaxError))
             \<and> ((\<exists>task\<in>set db. Some (id' task) = parseInt (delete_id dopt)) \<longrightarrow>
                delete_action w dopt
                  = console_error (console_error w DeleteErrorMsg) (ErrorMsg SyntaxError))))
     \<and> files (console_error (console_error w m) (ErrorMsg SyntaxError)) = files w
     \<and> writes (console_error (console_error w m) (ErrorMsg SyntaxError)) = writes w"
proof -
  have r: "readJSONFile typed' w p d' = Inl SyntaxError" for typed' :: "json \<Rightarrow> 'b option" and d'
    by (rule readJSONFile_malformed [OF assms])
  have db: "p = ''db.json'' \<Longrightarrow> readJSONFile as_tasks w ''db.json'' [] = Inl SyntaxError"
    using r [of as_tasks "[]"] by simp
  have ct: "p = ''counter.json'' \<Longrightarrow>
      readJSONFile as_counter w ''counter.json'' \<lparr>counter = 0\<rparr> = Inl SyntaxError"
    using r [of as_counter "\<lparr>counter = 0\<rparr>"] by simp
  have "readJSONFile typed w p dflt = Inl SyntaxError"
    by (rule readJSONFile_malformed [OF assms])
  moreover have "p = ''db.json'' \<longrightarrow>
          add_action w ao = console_error (console_error w AddErrorMsg) (ErrorMsg SyntaxError)
          \<and> edit_action w eo = console_error (console_error w EditErrorMsg) (ErrorMsg SyntaxError)
          \<and> delete_action w dopt
              = console_error (console_error w DeleteErrorMsg) (ErrorMsg SyntaxError)
          \<and> list_action w = Inl SyntaxError
          \<and> filter_action w fo = Inl SyntaxError"
    using db
    by (simp add: add_action_unreadable_db edit_action_unreadable_db delete_action_unreadable_db
          list_action_unreadable_db filter_action_unreadable_db)
  moreover have "p = ''counter.json'' \<longrightarrow>
          (\<forall>db. loadTasks w = Inr db \<longrightarrow>
             ((\<forall>task\<in>set db. title task \<noteq> add_title ao) \<longrightarrow>
                add_action w ao
                  = console_error (console_error w AddErrorMsg) (ErrorMsg SyntaxError))
             \<and> ((\<exists>task\<in>set db. Some (id' task) = parseInt (delete_id dopt)) \<longrightarrow>
                delete_action w dopt
                  = console_error (console_error w DeleteErrorMsg) (ErrorMsg SyntaxError)))"
    using ct add_action_unreadable_counter [of w _ ao SyntaxError]
      delete_action_unreadable_counter [of w _ dopt SyntaxError]
    by blast
  ultimately show ?thesis by simp
qed

theorem malformed_document_is_fatal_witness:
  "readJSONFile as_tasks broken_db_world ''db.json'' [] = Inl SyntaxError
   \<and> add_action broken_db_world \<lparr>add_title = ascii ''A'', add_status = None\<rparr>
       = console_error (console_error broken_db_world AddErrorMsg) (ErrorMsg SyntaxError)
   \<and> edit_action broken_db_world \<lparr>edit_title = None, edit_id = ascii ''2'', edit_status = None\<rparr>
       = console_error (console_error broken_db_world EditErrorMsg) (ErrorMsg SyntaxError)
   \<and> delete_action broken_db_world \<lparr>delete_id = ascii ''2''\<rparr>
       = console_error (console_error broken_db_world DeleteErrorMsg) (ErrorMsg SyntaxError)
   \<and> list_action broken_db_world = Inl SyntaxError
   \<and> filter_action broken_db_world \<lparr>filter_status = None\<rparr> = Inl SyntaxError
   \<and> readJSONFile as_counter broken_counter_world ''counter.json'' \<lparr>counter = 0\<rparr> = Inl SyntaxError
   \<and> add_action broken_counter_world \<lparr>add_title = ascii ''C'', add_status = None\<rparr>
       = console_error (console_error broken_counter_world AddErrorMsg) (ErrorMsg SyntaxError)
   \<and> delete_action broken_counter_world \<lparr>delete_id = ascii ''2''\<rparr>
       = console_error (console_error broken_counter_world DeleteErrorMsg) (ErrorMsg SyntaxError)"
proof -
  have ne: "[0x7B :: cu] \<noteq> []" by simp
  have t: "\<forall>task\<in>set [task_a, task_b]. title task \<noteq> add_title \<lparr>add_title = ascii ''C'', add_status = None\<rparr>"
    by (simp add: task_a_def task_b_def ascii_def)
  have i: "\<exists>task\<in>set [task_a, task_b]. Some (id' task) = parseInt (delete_id \<lparr>delete_id = ascii ''2''\<rparr>)"
    by (simp add: parseInt_examples task_b_def)
  from malformed_document_is_fatal [OF broken_db_file ne JSON_parse_brace,
      of as_tasks "[]" "\<lparr>add_title = ascii ''A'', add_status = None\<rparr>"
         "\<lparr>edit_title = None, edit_id = ascii ''2'', edit_status = None\<rparr>"
         "\<lparr>delete_id = ascii ''2''\<rparr>" "\<lparr>filter_status = None\<rparr>"]
    malformed_document_is_fatal [OF broken_counter_file ne JSON_parse_brace,
      of as_counter "\<lparr>counter = 0\<rparr>" "\<lparr>add_title = ascii ''C'', add_status = None\<rparr>" _
         "\<lparr>delete_id = ascii ''2''\<rparr>"]
    loadTasks_broken_counter t i
  show ?thesis by auto
qed

subsection \<open>C10: an id that is not a number\<close>

text \<open>
  Claim C10. For every stored collection, when \<^verbatim>\<open>parseInt\<close> of the id argument is \<^verbatim>\<open>NaN\<close>,
  \<^verbatim>\<open>edit\<close> and \<^verbatim>\<open>delete\<close> match no task: they report that the task was not found, no file is
  written, and the stored collection and counter are as before.
\<close>

theorem unparsable_id_not_found:
  assumes "loadTasks w = Inr db" and "parseInt i = None"
  shows "edit_action w \<lparr>edit_title = t, edit_id = i, edit_status = s\<rparr> = console_log w NotFoundMsg
         \<and> files (edit_action w \<lparr>edit_title = t, edit_id = i, edit_status = s\<rparr>) = files w
         \<and> writes (edit_action w \<lparr>edit_title = t, edit_id = i, edit_status = s\<rparr>) = writes w
         \<and> loadTasks (edit_action w \<lparr>edit_title = t, edit_id = i, edit_status = s\<rparr>) = Inr db
         \<and> loadCounter (edit_action w \<lparr>edit_title = t, edit_id = i, edit_status = s\<rparr>) = loadCounter w
         \<and> delete_action w \<lparr>delete_id = i\<rparr> = console_log w NotFoundMsg
         \<and> files (delete_action w \<lparr>delete_id = i\<rparr>) = files w
         \<and> writes (delete_action w \<lparr>delete_id = i\<rparr>) = writes w
         \<and> loadTasks (delete_action w \<lparr>delete_id = i\<rparr>) = Inr db
         \<and> loadCounter (delete_action w \<lparr>delete_id = i\<rparr>) = loadCounter w"
proof -
  have e: "edit_action w \<lparr>edit_title = t, edit_id = i, edit_status = s\<rparr> = console_log w NotFoundMsg"
    by (rule edit_action_missing [OF assms(1)]) (simp add: assms(2))
  have d: "delete_action w \<lparr>delete_id = i\<rparr> = console_log w NotFoundMsg"
    by (rule delete_action_missing [OF assms(1)]) (simp add: assms(2))
  show ?thesis unfolding e d using assms(1) by simp
qed

theorem unparsable_id_not_found_witness:
  "parseInt (ascii ''abc'') = None
   \<and> edit_action example_world \<lparr>edit_title = Some (ascii ''Z''), edit_id = ascii ''abc'', edit_status = None\<rparr> = console_log example_world NotFoundMsg
   \<and> files (edit_action example_world \<lparr>edit_title = Some (ascii ''Z''), edit_id = ascii ''abc'', edit_status = None\<rparr>) = files example_world
   \<and> writes (edit_action example_world \<lparr>edit_title = Some (ascii ''Z''), edit_id = ascii ''abc'', edit_status = None\<rparr>) = writes example_world
   \<and> loadTasks (edit_action example_world \<lparr>edit_title = Some (ascii ''Z''), edit_id = ascii ''abc'', edit_status = None\<rparr>) = Inr [task_a, task_b]
   \<and> loadCounter (edit_action example_world \<lparr>edit_title = Some (ascii ''Z''), edit_id = ascii ''abc'', edit_status = None\<rparr>) = loadCounter example_world
   \<and> delete_action example_world \<lparr>delete_id = ascii ''abc''\<rparr> = console_log example_world NotFoundMsg
   \<and> files (delete_action example_world \<lparr>delete_id = ascii ''abc''\<rparr>) = files example_world
   \<and> writes (delete_action example_world \<lparr>delete_id = ascii ''abc''\<rparr>) = writes example_world
   \<and> loadTasks (delete_action example_world \<lparr>delete_id = ascii ''abc''\<rparr>) = Inr [task_a, task_b]
   \<and> loadCounter (delete_action example_world \<lparr>delete_id = ascii ''abc''\<rparr>) = loadCounter example_world"
  using unparsable_id_not_found [OF loadTasks_example parseInt_examples(3)] parseInt_examples(3)
  by blast

end
